theory Spec2Isabelle
  imports Main "HOL-Library.Multiset"
begin

section \<open>Data model\<close>

subsection \<open>Errors\<close>

text \<open>
  A JavaScript error object. \<open>ctor\<close> is the class the object was constructed by (what
  \<^verbatim>\<open>instanceof\<close> inspects), \<open>name\<close> is its \<^verbatim>\<open>name\<close> property (what
  \<^verbatim>\<open>err.name === SQSError.name\<close> inspects). The remaining fields are the ones
  \<^verbatim>\<open>toSQSError\<close> copies; an absent property is \<open>None\<close>.
\<close>

datatype err_class = ErrorC | SQSErrorC | TimeoutErrorC

record js_error =
  ctor :: err_class
  name :: string
  message :: string
  code :: "string option"
  statusCode :: "int option"
  region :: "string option"
  retryable :: "bool option"
  hostname :: "string option"
  time :: "string option"

definition new_Error :: "string \<Rightarrow> js_error" where
  "new_Error text =
     \<lparr>ctor = ErrorC, name = ''Error'', message = text, code = None, statusCode = None,
      region = None, retryable = None, hostname = None, time = None\<rparr>"

text \<open>
  Modelled from the spec: the module \<^verbatim>\<open>./errors\<close>, which declares the classes
  \<^verbatim>\<open>SQSError\<close> and \<^verbatim>\<open>TimeoutError\<close>, is not among the sources. The spec
  distinguishes a transport error, a handler-timeout error and a generic processing error
  "by tag"; the consumer reads the tag of a transport error as the \<^verbatim>\<open>name\<close>
  property (compared with the class name \<^verbatim>\<open>SQSError\<close>) and the tag of a timeout as the
  constructing class. An \<^verbatim>\<open>SQSError\<close> is built from a message text; a
  \<^verbatim>\<open>TimeoutError\<close> is built without arguments and carries a default text, which
  the spec does not give: nothing proved below depends on what it is.
\<close>

definition SQSError_name :: string where
  "SQSError_name = ''SQSError''"

definition new_SQSError :: "string \<Rightarrow> js_error" where
  "new_SQSError text =
     \<lparr>ctor = SQSErrorC, name = SQSError_name, message = text, code = None, statusCode = None,
      region = None, retryable = None, hostname = None, time = None\<rparr>"

definition new_TimeoutError :: js_error where
  "new_TimeoutError =
     \<lparr>ctor = TimeoutErrorC, name = ''TimeoutError'', message = ''Operation timed out.'',
      code = None, statusCode = None, region = None, retryable = None, hostname = None,
      time = None\<rparr>"

definition instanceof_TimeoutError :: "js_error \<Rightarrow> bool" where
  "instanceof_TimeoutError err = (ctor err = TimeoutErrorC)"

definition isAuthenticationError :: "js_error \<Rightarrow> bool" where
  "isAuthenticationError err =
     (statusCode err = Some 403 \<or> code err = Some ''CredentialsError'')"

definition toSQSError :: "js_error \<Rightarrow> string \<Rightarrow> js_error" where
  "toSQSError err text =
     (new_SQSError text)
       \<lparr>code := code err, statusCode := statusCode err, region := region err,
        retryable := retryable err, hostname := hostname err, time := time err\<rparr>"

subsection \<open>Messages and responses\<close>

text \<open>
  A received message with the two properties the consumer adds to the object while it
  processes it. Both are absent (\<open>None\<close>) on a message as it comes from the queue.
\<close>

record sqs_message =
  MessageId :: string
  ReceiptHandle :: string
  Body :: string
  finishedProcessing :: "bool option"
  msg_visibilityTimeout :: "int option"

record response =
  Messages :: "sqs_message list option"

definition hasMessages :: "response \<Rightarrow> bool" where
  "hasMessages r = (case Messages r of None \<Rightarrow> False | Some ms \<Rightarrow> length ms > 0)"

subsection \<open>The handler and the queue client\<close>

text \<open>
  The handler is supplied by the user. Its run on a message is described by what the
  consumer can see of it: it resolves or rejects after some milliseconds, or it never
  settles.
\<close>

datatype handler_run = Resolves nat | Rejects nat js_error | Hangs

text \<open>The settled promise of a queue-client call.\<close>

datatype 'a settled = Resolved 'a | Rejected js_error

record receive_params =
  p_QueueUrl :: string
  p_AttributeNames :: "string list"
  p_MessageAttributeNames :: "string list"
  p_MaxNumberOfMessages :: int
  p_WaitTimeSeconds :: nat
  p_VisibilityTimeout :: "int option"

text \<open>
  The queue client (\<^verbatim>\<open>this.sqs\<close>) is an external collaborator: each operation is a
  function from its parameters to the settled promise. \<open>getQueueAttributes\<close> yields the
  queue's \<^verbatim>\<open>VisibilityTimeout\<close> attribute; \<open>changeMessageVisibility\<close> takes the queue,
  the receipt handle and the timeout in seconds.
\<close>

record sqs_client =
  receiveMessage :: "receive_params \<Rightarrow> response option settled"
  getQueueAttributes :: "string \<Rightarrow> int settled"
  deleteMessage :: "string \<Rightarrow> string \<Rightarrow> unit settled"
  changeMessageVisibility :: "string \<Rightarrow> string \<Rightarrow> int option \<Rightarrow> unit settled"

subsection \<open>Options and the consumer\<close>

record options =
  opt_queueUrl :: "string option"
  opt_handleMessage :: "(sqs_message \<Rightarrow> handler_run) option"
  opt_handleMessageTimeout :: "nat option"
  opt_attributeNames :: "string list option"
  opt_messageAttributeNames :: "string list option"
  opt_batchSize :: "int option"
  opt_terminateVisibilityTimeout :: "bool option"
  opt_extendVisibilityTimeout :: "bool option"
  opt_waitTimeSeconds :: "nat option"
  opt_authenticationErrorTimeout :: "nat option"
  opt_sqs :: sqs_client

text \<open>
  The consumer is an \<^verbatim>\<open>EventEmitter\<close>. Of its listeners the model keeps whether
  \<^verbatim>\<open>error\<close> has one: \<^verbatim>\<open>emit('error', err)\<close> throws \<open>err\<close> when it has
  none, and every other \<^verbatim>\<open>emit\<close> returns whether or not anybody listens.
\<close>

record consumer =
  queueUrl :: string
  handleMessage :: "sqs_message \<Rightarrow> handler_run"
  handleMessageTimeout :: "nat option"
  attributeNames :: "string list"
  messageAttributeNames :: "string list"
  stopped :: bool
  batchSize :: int
  terminateVisibilityTimeout :: bool
  extendVisibilityTimeout :: bool
  waitTimeSeconds :: nat
  authenticationErrorTimeout :: nat
  visibilityTimeout :: "int option"
  sqs :: sqs_client
  error_listener :: bool

section \<open>Construction\<close>

text \<open>JavaScript truthiness of an optional string, and \<^verbatim>\<open>x || d\<close> on optional values.\<close>

definition truthy_string :: "string option \<Rightarrow> bool" where
  "truthy_string s = (case s of None \<Rightarrow> False | Some t \<Rightarrow> t \<noteq> [])"

definition or_default :: "'a option \<Rightarrow> 'a \<Rightarrow> 'a" where
  "or_default x d = (case x of None \<Rightarrow> d | Some v \<Rightarrow> v)"

definition or_default_num :: "('a::zero) option \<Rightarrow> 'a \<Rightarrow> 'a" where
  "or_default_num x d = (case x of None \<Rightarrow> d | Some v \<Rightarrow> if v = 0 then d else v)"

text \<open>
  \<^verbatim>\<open>validate\<close>: the required options are checked in the order of
  \<^verbatim>\<open>requiredOptions\<close>, then the batch size. An absent batch size compares false with
  both bounds.
\<close>

definition validate :: "options \<Rightarrow> js_error option" where
  "validate opts =
     (if \<not> truthy_string (opt_queueUrl opts)
        then Some (new_Error ''Missing SQS consumer option [queueUrl].'')
      else if opt_handleMessage opts = None
        then Some (new_Error ''Missing SQS consumer option [handleMessage].'')
      else (case opt_batchSize opts of
              None \<Rightarrow> None
            | Some b \<Rightarrow>
                if b > 10 \<or> b < 1
                  then Some (new_Error ''SQS batchSize option must be between 1 and 10.'')
                else None))"

text \<open>
  The constructor: \<open>Inl\<close> is the error thrown by \<^verbatim>\<open>validate\<close>, before any field is
  set. The constructor issues no queue call and starts no poll; a new consumer is stopped
  and has no listener yet. \<open>on_error\<close> is \<^verbatim>\<open>consumer.on('error', listener)\<close>.
\<close>

definition Consumer :: "options \<Rightarrow> js_error + consumer" where
  "Consumer opts =
     (case validate opts of
        Some err \<Rightarrow> Inl err
      | None \<Rightarrow>
          Inr \<lparr>queueUrl = the (opt_queueUrl opts),
               handleMessage = the (opt_handleMessage opts),
               handleMessageTimeout = opt_handleMessageTimeout opts,
               attributeNames = or_default (opt_attributeNames opts) [],
               messageAttributeNames = or_default (opt_messageAttributeNames opts) [],
               stopped = True,
               batchSize = or_default_num (opt_batchSize opts) 1,
               terminateVisibilityTimeout = or_default (opt_terminateVisibilityTimeout opts) False,
               extendVisibilityTimeout = or_default (opt_extendVisibilityTimeout opts) False,
               waitTimeSeconds = or_default_num (opt_waitTimeSeconds opts) 20,
               authenticationErrorTimeout = or_default_num (opt_authenticationErrorTimeout opts) 10000,
               visibilityTimeout = None,
               sqs = opt_sqs opts,
               error_listener = False\<rparr>)"

definition on_error :: "consumer \<Rightarrow> consumer" where
  "on_error c = c\<lparr>error_listener := True\<rparr>"

section \<open>Observable behaviour\<close>

text \<open>
  What the consumer does is recorded as a list of actions, in the order in which they
  happen: events emitted, queue-client calls issued, timers set and cleared, the direct
  call of the next poll cycle, and a promise rejection that nothing handles. An event
  carries a reference to the message object; the model identifies the reference with the
  message as \<^verbatim>\<open>_processMessage\<close> received it. Timers of one message are told apart by
  its receipt handle. A timer delay is a JavaScript number (\<open>None\<close> when it was computed
  from an undefined value). \<open>Emit\<close> records the call of \<^verbatim>\<open>emit\<close>, whether or not the
  event has a listener. Listeners are taken to return normally, and a queue-client promise
  always settles.
\<close>

datatype event =
    Stopped
  | Empty
  | ResponseProcessed
  | MessageReceived sqs_message
  | MessageProcessed sqs_message
  | Error js_error "sqs_message option"
  | TimeoutErrorEvent js_error sqs_message
  | ProcessingError js_error sqs_message

datatype sqs_call =
    ReceiveMessage receive_params
  | GetQueueAttributes string
  | DeleteMessage string string
  | ChangeMessageVisibility string string "int option"

datatype timer = PollTimer | ExtendTimer string | DeadlineTimer string

datatype action =
    Emit event
  | Call sqs_call
  | SetTimeout timer "int option"
  | ClearTimeout timer
  | Invoke_poll
  | Unhandled js_error

text \<open>The settlement of an awaited promise: a value, a thrown error, or never.\<close>

datatype 'a outcome = Returned 'a | Thrown js_error | Pending

text \<open>
  \<^verbatim>\<open>this.emit(...)\<close>: the call is recorded; an \<^verbatim>\<open>error\<close> event without a
  listener throws the error it carries.
\<close>

definition emit :: "consumer \<Rightarrow> event \<Rightarrow> action list \<times> unit outcome" where
  "emit c ev =
     ([Emit ev],
      (case ev of
         Error err ref \<Rightarrow> if error_listener c then Returned () else Thrown err
       | other \<Rightarrow> Returned ()))"

section \<open>Visibility extension\<close>

text \<open>
  One round of \<^verbatim>\<open>extendTimeout\<close>. The result is the message after the round, the
  actions done at once (the call), and the actions of the continuation passed to
  \<^verbatim>\<open>then\<close>, which runs when the call's promise settles: \<^verbatim>\<open>then\<close> is given a
  fulfilment callback only, so on a rejection the callback does not run and the rejection
  is handled by nothing.
\<close>

definition extendTimeout_call :: "consumer \<Rightarrow> sqs_message \<Rightarrow> sqs_message \<times> action list" where
  "extendTimeout_call c m =
     (if finishedProcessing m \<noteq> Some True then
        (let m' = m\<lparr>msg_visibilityTimeout := map_option (\<lambda>v. v * 2) (msg_visibilityTimeout m)\<rparr>
         in (m', [Call (ChangeMessageVisibility (queueUrl c) (ReceiptHandle m')
                          (msg_visibilityTimeout m'))]))
      else (m, []))"

definition extendTimeout_then :: "consumer \<Rightarrow> sqs_message \<Rightarrow> action list" where
  "extendTimeout_then c m' =
     (case changeMessageVisibility (sqs c) (queueUrl c) (ReceiptHandle m')
             (msg_visibilityTimeout m') of
        Resolved u \<Rightarrow>
          [SetTimeout (ExtendTimer (ReceiptHandle m'))
             (map_option (\<lambda>v. v * 450) (msg_visibilityTimeout m'))]
      | Rejected err \<Rightarrow> [Unhandled err])"

definition extendTimeout :: "consumer \<Rightarrow> sqs_message \<Rightarrow> sqs_message \<times> action list \<times> action list" where
  "extendTimeout c m =
     (if finishedProcessing m \<noteq> Some True then
        (let (m', issued) = extendTimeout_call c m
         in (m', issued, extendTimeout_then c m'))
      else (m, [], []))"

section \<open>The timeout guard\<close>

definition truthy_nat :: "nat option \<Rightarrow> bool" where
  "truthy_nat x = (case x of None \<Rightarrow> False | Some v \<Rightarrow> v \<noteq> 0)"

fun show_nat :: "nat \<Rightarrow> string" where
  "show_nat n =
     (if n < 10 then [''0123456789'' ! n]
      else show_nat (n div 10) @ [''0123456789'' ! (n mod 10)])"

declare show_nat.simps [simp del]

definition show_budget :: "nat option \<Rightarrow> string" where
  "show_budget x = (case x of None \<Rightarrow> ''undefined'' | Some n \<Rightarrow> show_nat n)"

text \<open>
  \<^verbatim>\<open>createTimeout\<close>: the timer that is set, and the pending promise, which rejects
  with a new \<^verbatim>\<open>TimeoutError\<close> when the duration has passed. The timer is named by
  the caller.
\<close>

definition createTimeout :: "timer \<Rightarrow> nat \<Rightarrow> action \<times> nat \<times> js_error" where
  "createTimeout tm duration = (SetTimeout tm (Some (int duration)), duration, new_TimeoutError)"

text \<open>
  \<^verbatim>\<open>Promise.race([handleMessage(message), pending])\<close>, the deadline timer having been
  set before the handler is called: the handler wins when it settles before the deadline,
  otherwise the pending promise rejects first. \<open>await_handler\<close> is the direct
  \<^verbatim>\<open>await\<close>.
\<close>

definition Promise_race :: "handler_run \<Rightarrow> nat \<times> js_error \<Rightarrow> unit outcome" where
  "Promise_race run pending =
     (case pending of
        (t, timeout) \<Rightarrow>
          (case run of
             Resolves d \<Rightarrow> if d < t then Returned () else Thrown timeout
           | Rejects d err \<Rightarrow> if d < t then Thrown err else Thrown timeout
           | Hangs \<Rightarrow> Thrown timeout))"

definition await_handler :: "handler_run \<Rightarrow> unit outcome" where
  "await_handler run =
     (case run of Resolves d \<Rightarrow> Returned () | Rejects d err \<Rightarrow> Thrown err | Hangs \<Rightarrow> Pending)"

text \<open>
  \<^verbatim>\<open>_executeHandler\<close>. \<open>executeHandler_setup\<close> is its start, up to the call of the
  handler: the two properties are set on the message and, when extension is enabled, the
  first extension round is started (its continuation runs detached from the handler and is
  not part of what \<^verbatim>\<open>_executeHandler\<close> does). The result of \<open>executeHandler\<close> is the message
  afterwards, the actions done before the handler is awaited, the actions done once the
  awaited promise has settled (\<^verbatim>\<open>clearTimeout\<close> of the deadline timer, when one was
  set), and the settlement.
\<close>

definition executeHandler_setup :: "consumer \<Rightarrow> sqs_message \<Rightarrow> sqs_message \<times> action list" where
  "executeHandler_setup c m =
     (let m0 = m\<lparr>finishedProcessing := Some False, msg_visibilityTimeout := visibilityTimeout c\<rparr>
      in if extendVisibilityTimeout c then
           (let (m', issued, later) = extendTimeout c m0 in (m', issued))
         else (m0, []))"

definition handler_failure :: "consumer \<Rightarrow> js_error \<Rightarrow> js_error" where
  "handler_failure c err =
     (if instanceof_TimeoutError err then
        err\<lparr>message := ''Message handler timed out after '' @
                 show_budget (handleMessageTimeout c) @ ''ms: '' @ message err\<rparr>
      else err\<lparr>message := ''Unexpected message handler failure: '' @ message err\<rparr>)"

definition executeHandler ::
    "consumer \<Rightarrow> sqs_message \<Rightarrow> sqs_message \<times> action list \<times> action list \<times> unit outcome" where
  "executeHandler c m =
     (let (m1, issued) = executeHandler_setup c m;
          deadline = DeadlineTimer (ReceiptHandle m1);
          (before, settled, cleared) =
            (if truthy_nat (handleMessageTimeout c) then
               (let (set_timer, pending) = createTimeout deadline (the (handleMessageTimeout c))
                in (issued @ [set_timer], Promise_race (handleMessage c m1) pending,
                    [ClearTimeout deadline]))
             else (issued, await_handler (handleMessage c m1), []))
      in case settled of
           Returned u \<Rightarrow> (m1, before, cleared, Returned ())
         | Thrown err \<Rightarrow>
             (m1\<lparr>finishedProcessing := Some True\<rparr>, before, cleared, Thrown (handler_failure c err))
         | Pending \<Rightarrow> (m1, before, [], Pending))"

section \<open>The message processor\<close>

definition consumer_deleteMessage :: "consumer \<Rightarrow> sqs_message \<Rightarrow> action list \<times> unit outcome" where
  "consumer_deleteMessage c m =
     ([Call (DeleteMessage (queueUrl c) (ReceiptHandle m))],
      (case deleteMessage (sqs c) (queueUrl c) (ReceiptHandle m) of
         Resolved u \<Rightarrow> Returned ()
       | Rejected err \<Rightarrow>
           Thrown (toSQSError err (''SQS delete message failed: '' @ message err))))"

definition terminateVisabilityTimeout :: "consumer \<Rightarrow> sqs_message \<Rightarrow> action list \<times> unit outcome" where
  "terminateVisabilityTimeout c m =
     ([Call (ChangeMessageVisibility (queueUrl c) (ReceiptHandle m) (Some 0))],
      (case changeMessageVisibility (sqs c) (queueUrl c) (ReceiptHandle m) (Some 0) of
         Resolved u \<Rightarrow> Returned ()
       | Rejected err \<Rightarrow> Thrown err))"

text \<open>
  The \<^verbatim>\<open>catch\<close> block of \<^verbatim>\<open>_processMessage\<close>: the event is chosen by the error's
  name, then by its class. When the \<^verbatim>\<open>emit\<close> throws, the block ends there and the
  error leaves \<^verbatim>\<open>_processMessage\<close>. Otherwise the visibility release follows when
  the flag is set; its failure is emitted as \<^verbatim>\<open>error\<close>, and that \<^verbatim>\<open>emit\<close>
  can throw as well.
\<close>

definition failure_event :: "js_error \<Rightarrow> sqs_message \<Rightarrow> event" where
  "failure_event err ref =
     (if name err = SQSError_name then Error err (Some ref)
      else if instanceof_TimeoutError err then TimeoutErrorEvent err ref
      else ProcessingError err ref)"

definition processMessage_catch ::
    "consumer \<Rightarrow> sqs_message \<Rightarrow> sqs_message \<Rightarrow> js_error \<Rightarrow> action list \<times> unit outcome" where
  "processMessage_catch c ref m err =
     (case emit c (failure_event err ref) of
        (reported, Returned u) \<Rightarrow>
          (if terminateVisibilityTimeout c then
             (case terminateVisabilityTimeout c m of
                (calls, Thrown err2) \<Rightarrow>
                  (case emit c (Error err2 (Some ref)) of
                     (reported2, r) \<Rightarrow> (reported @ calls @ reported2, r))
              | (calls, r) \<Rightarrow> (reported @ calls, Returned ()))
           else (reported, Returned ()))
      | (reported, r) \<Rightarrow> (reported, r))"

text \<open>
  The \<^verbatim>\<open>try\<close> block of \<^verbatim>\<open>_processMessage\<close>: the handler, then the delete,
  then \<^verbatim>\<open>message_processed\<close>. The result is the message afterwards, the actions
  done before the handler is awaited, the actions done after it has settled, and how the
  block ends. \<^verbatim>\<open>message_received\<close> and \<^verbatim>\<open>message_processed\<close> are not
  \<^verbatim>\<open>error\<close> events: their \<^verbatim>\<open>emit\<close> returns.
\<close>

definition processMessage_try ::
    "consumer \<Rightarrow> sqs_message \<Rightarrow> sqs_message \<times> action list \<times> action list \<times> unit outcome" where
  "processMessage_try c m =
     (let (m1, before, cleared, handled) = executeHandler c m
      in case handled of
           Returned u \<Rightarrow>
             (case consumer_deleteMessage c m1 of
                (calls, Returned v) \<Rightarrow>
                  (m1, before, cleared @ calls @ [Emit (MessageProcessed m)], Returned ())
              | (calls, r) \<Rightarrow> (m1, before, cleared @ calls, r))
         | r \<Rightarrow> (m1, before, cleared, r))"

text \<open>
  \<^verbatim>\<open>_processMessage\<close>: \<open>pm_before\<close> are the actions done by the call itself, before
  its first suspension (they run inside \<^verbatim>\<open>Messages.map\<close>); \<open>pm_after\<close> are the
  actions done after the handler has settled; \<open>pm_result\<close> is the settlement of the
  returned promise and \<open>pm_message\<close> the message object at the end. The record follows
  the processor's own control flow: the continuation of an extension call and the
  timer-driven extension rounds run beside it and are given by \<open>extendTimeout\<close>.
\<close>

record processing =
  pm_message :: sqs_message
  pm_before :: "action list"
  pm_after :: "action list"
  pm_result :: "unit outcome"

definition processMessage :: "consumer \<Rightarrow> sqs_message \<Rightarrow> processing" where
  "processMessage c m =
     (let (m1, before, after, tried) = processMessage_try c m;
          received = Emit (MessageReceived m) # before
      in case tried of
           Thrown err \<Rightarrow>
             (let (acts, r) = processMessage_catch c m m1 err
              in \<lparr>pm_message = m1, pm_before = received, pm_after = after @ acts,
                  pm_result = r\<rparr>)
         | r \<Rightarrow> \<lparr>pm_message = m1, pm_before = received, pm_after = after, pm_result = r\<rparr>)"

section \<open>The poll loop\<close>

text \<open>
  The messages of a batch are processed concurrently: \<^verbatim>\<open>Messages.map\<close> runs the
  start of every \<^verbatim>\<open>_processMessage\<close> call in batch order, and what each call does
  after its handler has settled is interleaved with the others in an order the consumer
  does not control. \<open>interleavings\<close> is the set of all merges that keep the order within
  each list.
\<close>

fun interleavings :: "'a list list \<Rightarrow> 'a list set" where
  "interleavings [] = {[]}"
| "interleavings (xs # xss) = (\<Union>ys \<in> interleavings xss. shuffles xs ys)"

text \<open>
  \<^verbatim>\<open>Promise.all\<close>: rejected as soon as one promise is rejected, fulfilled when all are
  fulfilled, and pending otherwise.
\<close>

fun Promise_all :: "unit outcome list \<Rightarrow> unit outcome" where
  "Promise_all [] = Returned ()"
| "Promise_all (r # rs) =
     (case r of
        Thrown err \<Rightarrow> Thrown err
      | Returned u \<Rightarrow> Promise_all rs
      | Pending \<Rightarrow> (case Promise_all rs of Thrown err \<Rightarrow> Thrown err | other \<Rightarrow> Pending))"

text \<open>
  \<^verbatim>\<open>_handleSqsResponse\<close>: the set of action sequences one call can produce. The call
  is not awaited by \<^verbatim>\<open>_poll\<close>. When a \<^verbatim>\<open>_processMessage\<close> promise is rejected,
  \<^verbatim>\<open>Promise.all\<close> is rejected with it, the \<^verbatim>\<open>await\<close> throws, and the promise
  of \<^verbatim>\<open>_handleSqsResponse\<close> is rejected with nothing to handle it: \<open>rejection\<close> marks
  the point, after the last action of that message, and \<open>keep_first_unhandled\<close> keeps the
  first mark only, since \<^verbatim>\<open>Promise.all\<close> absorbs the rejections that follow.
\<close>

fun is_unhandled :: "action \<Rightarrow> bool" where
  "is_unhandled (Unhandled err) = True"
| "is_unhandled a = False"

fun keep_first_unhandled :: "action list \<Rightarrow> action list" where
  "keep_first_unhandled [] = []"
| "keep_first_unhandled (a # rest) =
     (if is_unhandled a then a # filter (\<lambda>b. \<not> is_unhandled b) rest
      else a # keep_first_unhandled rest)"

definition rejection :: "processing \<Rightarrow> action list" where
  "rejection p = (case pm_result p of Thrown err \<Rightarrow> [Unhandled err] | other \<Rightarrow> [])"

definition handleSqsResponse :: "consumer \<Rightarrow> response option \<Rightarrow> action list set" where
  "handleSqsResponse c resp =
     (case resp of
        None \<Rightarrow> {[Invoke_poll]}
      | Some r \<Rightarrow>
          if hasMessages r then
            (let runs = map (processMessage c) (the (Messages r));
                 finish = (case Promise_all (map pm_result runs) of
                             Returned u \<Rightarrow> [Emit ResponseProcessed, Invoke_poll]
                           | other \<Rightarrow> [])
             in (\<lambda>later. concat (map pm_before runs) @ keep_first_unhandled later @ finish) `
                  interleavings (map (\<lambda>p. pm_after p @ rejection p) runs))
          else {[Emit Empty, Invoke_poll]})"

definition receiveParams :: "consumer \<Rightarrow> receive_params" where
  "receiveParams c =
     \<lparr>p_QueueUrl = queueUrl c, p_AttributeNames = attributeNames c,
      p_MessageAttributeNames = messageAttributeNames c, p_MaxNumberOfMessages = batchSize c,
      p_WaitTimeSeconds = waitTimeSeconds c, p_VisibilityTimeout = visibilityTimeout c\<rparr>"

definition consumer_receiveMessage ::
    "consumer \<Rightarrow> receive_params \<Rightarrow> action list \<times> (js_error + response option)" where
  "consumer_receiveMessage c params =
     (case receiveMessage (sqs c) params of
        Resolved resp \<Rightarrow> ([Call (ReceiveMessage params)], Inr resp)
      | Rejected err \<Rightarrow>
          ([Call (ReceiveMessage params)],
           Inl (toSQSError err (''SQS receive message failed: '' @ message err))))"

text \<open>
  The \<^verbatim>\<open>catch\<close> block of \<^verbatim>\<open>_poll\<close>, and one cycle of \<^verbatim>\<open>_poll\<close>: the consumer
  afterwards (the cached visibility timeout is the only field a cycle writes) and the
  action sequences the cycle can produce. The next cycle is the action \<open>Invoke_poll\<close>
  when it is called directly and \<open>SetTimeout PollTimer\<close> when it is put on a timer. No
  caller of \<^verbatim>\<open>_poll\<close> awaits it: when the \<^verbatim>\<open>emit\<close> in the \<^verbatim>\<open>catch\<close> block
  throws, the rejection is handled by nothing.
\<close>

definition poll_catch :: "consumer \<Rightarrow> js_error \<Rightarrow> action list" where
  "poll_catch c err =
     (case emit c (Error err None) of
        (reported, Thrown thrown) \<Rightarrow> reported @ [Unhandled thrown]
      | (reported, r) \<Rightarrow>
          reported @
            (if isAuthenticationError err
               then [SetTimeout PollTimer (Some (int (authenticationErrorTimeout c)))]
             else []))"

definition poll :: "consumer \<Rightarrow> consumer \<times> action list set" where
  "poll c =
     (if stopped c then (c, {[Emit Stopped]})
      else
        (case consumer_receiveMessage c (receiveParams c) of
           (calls, Inl err) \<Rightarrow> (c, {calls @ poll_catch c err})
         | (calls, Inr resp) \<Rightarrow>
             (case getQueueAttributes (sqs c) (queueUrl c) of
                Rejected err \<Rightarrow>
                  (c, {calls @ [Call (GetQueueAttributes (queueUrl c))] @ poll_catch c err})
              | Resolved vt \<Rightarrow>
                  (let c' = c\<lparr>visibilityTimeout := Some vt\<rparr>
                   in (c', (\<lambda>rest. calls @ [Call (GetQueueAttributes (queueUrl c))] @ rest) `
                             handleSqsResponse c' resp)))))"

text \<open>\<^verbatim>\<open>start\<close> and \<^verbatim>\<open>stop\<close>.\<close>

definition start :: "consumer \<Rightarrow> consumer \<times> action list set" where
  "start c = (if stopped c then poll (c\<lparr>stopped := False\<rparr>) else (c, {[]}))"

definition stop :: "consumer \<Rightarrow> consumer" where
  "stop c = c\<lparr>stopped := True\<rparr>"

section \<open>Classes of actions\<close>

fun is_message_received :: "action \<Rightarrow> bool" where
  "is_message_received (Emit (MessageReceived m)) = True"
| "is_message_received a = False"

fun is_message_processed :: "action \<Rightarrow> bool" where
  "is_message_processed (Emit (MessageProcessed m)) = True"
| "is_message_processed a = False"

fun is_timeout_error :: "action \<Rightarrow> bool" where
  "is_timeout_error (Emit (TimeoutErrorEvent err m)) = True"
| "is_timeout_error a = False"

fun is_failure_event :: "action \<Rightarrow> bool" where
  "is_failure_event (Emit (Error err m)) = True"
| "is_failure_event (Emit (TimeoutErrorEvent err m)) = True"
| "is_failure_event (Emit (ProcessingError err m)) = True"
| "is_failure_event a = False"

fun is_delete_call :: "action \<Rightarrow> bool" where
  "is_delete_call (Call (DeleteMessage q h)) = True"
| "is_delete_call a = False"

fun is_timer :: "action \<Rightarrow> bool" where
  "is_timer (SetTimeout tm d) = True"
| "is_timer a = False"

text \<open>
  The actions of \<^verbatim>\<open>_executeHandler\<close>: the first extension call, and the deadline
  timer set and cleared.
\<close>

fun is_guard_action :: "action \<Rightarrow> bool" where
  "is_guard_action (Call (ChangeMessageVisibility q h v)) = True"
| "is_guard_action (SetTimeout (DeadlineTimer h) d) = True"
| "is_guard_action (ClearTimeout tm) = True"
| "is_guard_action a = False"

text \<open>A handler run exceeds a budget of \<open>t\<close> milliseconds.\<close>

definition exceeds :: "handler_run \<Rightarrow> nat \<Rightarrow> bool" where
  "exceeds run t = (case run of Resolves d \<Rightarrow> t < d | Rejects d err \<Rightarrow> t < d | Hangs \<Rightarrow> True)"

section \<open>Example inputs\<close>

definition example_client :: sqs_client where
  "example_client =
     \<lparr>receiveMessage = (\<lambda>p. Resolved (Some \<lparr>Messages = Some []\<rparr>)),
      getQueueAttributes = (\<lambda>q. Resolved 30),
      deleteMessage = (\<lambda>q rh. Resolved ()),
      changeMessageVisibility = (\<lambda>q rh v. Resolved ())\<rparr>"

definition example_options :: options where
  "example_options =
     \<lparr>opt_queueUrl = Some ''https://queue'',
      opt_handleMessage = Some (\<lambda>m. Resolves 5),
      opt_handleMessageTimeout = None,
      opt_attributeNames = None,
      opt_messageAttributeNames = None,
      opt_batchSize = None,
      opt_terminateVisibilityTimeout = None,
      opt_extendVisibilityTimeout = None,
      opt_waitTimeSeconds = None,
      opt_authenticationErrorTimeout = None,
      opt_sqs = example_client\<rparr>"

definition example_consumer :: consumer where
  "example_consumer =
     \<lparr>queueUrl = ''https://queue'',
      handleMessage = (\<lambda>m. Resolves 5),
      handleMessageTimeout = None,
      attributeNames = [],
      messageAttributeNames = [],
      stopped = False,
      batchSize = 1,
      terminateVisibilityTimeout = False,
      extendVisibilityTimeout = False,
      waitTimeSeconds = 20,
      authenticationErrorTimeout = 10000,
      visibilityTimeout = Some 30,
      sqs = example_client,
      error_listener = True\<rparr>"

definition example_message :: "string \<Rightarrow> sqs_message" where
  "example_message h =
     \<lparr>MessageId = ''id-'' @ h, ReceiptHandle = h, Body = ''payload'',
      finishedProcessing = None, msg_visibilityTimeout = None\<rparr>"

definition example_failure :: "int \<Rightarrow> js_error" where
  "example_failure status = (new_Error ''service failure'')\<lparr>statusCode := Some status\<rparr>"

definition example_rejecting_consumer :: consumer where
  "example_rejecting_consumer =
     example_consumer
       \<lparr>handleMessage := (\<lambda>m. Rejects 5 (new_Error ''bad input'')),
        terminateVisibilityTimeout := True,
        sqs := example_client\<lparr>changeMessageVisibility := (\<lambda>q h v. Rejected (example_failure 500))\<rparr>\<rparr>"

definition example_slow_consumer :: consumer where
  "example_slow_consumer =
     example_consumer\<lparr>handleMessage := (\<lambda>m. Resolves 150), handleMessageTimeout := Some 100\<rparr>"

definition example_undeletable_consumer :: consumer where
  "example_undeletable_consumer =
     example_consumer
       \<lparr>terminateVisibilityTimeout := True,
        sqs := example_client\<lparr>deleteMessage := (\<lambda>q h. Rejected (example_failure 503))\<rparr>\<rparr>"

definition example_batch :: response where
  "example_batch = \<lparr>Messages = Some [example_message ''A'', example_message ''B'']\<rparr>"

definition example_unreachable_consumer :: "int \<Rightarrow> consumer" where
  "example_unreachable_consumer status =
     example_consumer
       \<lparr>sqs := example_client\<lparr>receiveMessage := (\<lambda>p. Rejected (example_failure status))\<rparr>\<rparr>"

definition example_extending_consumer :: consumer where
  "example_extending_consumer = example_consumer\<lparr>extendVisibilityTimeout := True\<rparr>"

definition example_unextendable_consumer :: consumer where
  "example_unextendable_consumer =
     example_consumer
       \<lparr>extendVisibilityTimeout := True,
        sqs := example_client\<lparr>changeMessageVisibility := (\<lambda>q h v. Rejected (example_failure 500))\<rparr>\<rparr>"

definition example_single_batch :: response where
  "example_single_batch = \<lparr>Messages = Some [example_message ''A'']\<rparr>"

definition example_polling_client :: "response \<Rightarrow> sqs_client" where
  "example_polling_client batch = example_client\<lparr>receiveMessage := (\<lambda>p. Resolved (Some batch))\<rparr>"

definition example_polling_consumer :: "response \<Rightarrow> consumer" where
  "example_polling_consumer batch = example_consumer\<lparr>sqs := example_polling_client batch\<rparr>"

definition example_mixed_consumer :: consumer where
  "example_mixed_consumer =
     (example_polling_consumer example_batch)
       \<lparr>handleMessage :=
          (\<lambda>m. if ReceiptHandle m = ''B'' then Rejects 5 (new_Error ''bad input'') else Resolves 5)\<rparr>"

definition example_hanging_consumer :: consumer where
  "example_hanging_consumer =
     (example_polling_consumer example_single_batch)\<lparr>handleMessage := (\<lambda>m. Hangs)\<rparr>"

definition example_blind_consumer :: consumer where
  "example_blind_consumer =
     example_consumer
       \<lparr>sqs := (example_polling_client example_batch)
                 \<lparr>getQueueAttributes := (\<lambda>q. Rejected (example_failure 500))\<rparr>\<rparr>"

definition example_unheard_consumer :: consumer where
  "example_unheard_consumer =
     example_consumer
       \<lparr>terminateVisibilityTimeout := True,
        error_listener := False,
        sqs := (example_polling_client example_single_batch)
                 \<lparr>deleteMessage := (\<lambda>q h. Rejected (example_failure 503))\<rparr>\<rparr>"

section \<open>Evaluation\<close>

lemmas model_defs =
  processMessage_def processMessage_try_def processMessage_catch_def executeHandler_def
  executeHandler_setup_def extendTimeout_call_def extendTimeout_then_def extendTimeout_def
  consumer_deleteMessage_def terminateVisabilityTimeout_def failure_event_def
  handler_failure_def emit_def createTimeout_def Promise_race_def await_handler_def truthy_nat_def
  show_budget_def
  instanceof_TimeoutError_def new_Error_def new_SQSError_def new_TimeoutError_def
  SQSError_name_def toSQSError_def isAuthenticationError_def exceeds_def Let_def

lemmas example_defs =
  example_client_def example_consumer_def example_message_def example_failure_def
  example_rejecting_consumer_def
  example_slow_consumer_def example_undeletable_consumer_def example_single_batch_def
  example_batch_def example_polling_client_def example_polling_consumer_def
  example_mixed_consumer_def example_hanging_consumer_def example_blind_consumer_def
  example_unheard_consumer_def

section \<open>Construction is validated\<close>

text \<open>
  C3. For an options record with a queue identity and a handler, construction succeeds
  when the batch size is absent (it is then 1) or lies between 1 and 10, and throws when
  the batch size is below 1 or above 10. Construction throws as well when the queue
  identity or the handler is missing. The error is thrown before anything else is done: no
  consumer exists that could poll, and a constructed consumer is stopped.
\<close>

theorem constructor_validates_options:
  "(truthy_string (opt_queueUrl opts) \<and> opt_handleMessage opts \<noteq> None \<longrightarrow>
      (case opt_batchSize opts of
         None \<Rightarrow> \<exists>c. Consumer opts = Inr c \<and> batchSize c = 1 \<and> stopped c
       | Some b \<Rightarrow>
           if 1 \<le> b \<and> b \<le> 10 then \<exists>c. Consumer opts = Inr c \<and> batchSize c = b \<and> stopped c
           else Consumer opts = Inl (new_Error ''SQS batchSize option must be between 1 and 10.'')))
   \<and> (\<not> truthy_string (opt_queueUrl opts) \<longrightarrow>
        Consumer opts = Inl (new_Error ''Missing SQS consumer option [queueUrl].''))
   \<and> (truthy_string (opt_queueUrl opts) \<and> opt_handleMessage opts = None \<longrightarrow>
        Consumer opts = Inl (new_Error ''Missing SQS consumer option [handleMessage].''))"
  by (auto simp: Consumer_def validate_def or_default_num_def split: option.splits)

theorem constructor_validates_options_witness:
  "(\<exists>c. Consumer example_options = Inr c \<and> batchSize c = 1 \<and> stopped c)
   \<and> (\<exists>c. Consumer (example_options\<lparr>opt_batchSize := Some 10\<rparr>) = Inr c \<and> batchSize c = 10 \<and> stopped c)
   \<and> Consumer (example_options\<lparr>opt_batchSize := Some 11\<rparr>) =
        Inl (new_Error ''SQS batchSize option must be between 1 and 10.'')
   \<and> Consumer (example_options\<lparr>opt_batchSize := Some 0\<rparr>) =
        Inl (new_Error ''SQS batchSize option must be between 1 and 10.'')
   \<and> Consumer (example_options\<lparr>opt_queueUrl := None\<rparr>) =
        Inl (new_Error ''Missing SQS consumer option [queueUrl].'')
   \<and> Consumer (example_options\<lparr>opt_handleMessage := None\<rparr>) =
        Inl (new_Error ''Missing SQS consumer option [handleMessage].'')"
  using constructor_validates_options [of example_options]
        constructor_validates_options [of "example_options\<lparr>opt_batchSize := Some 10\<rparr>"]
        constructor_validates_options [of "example_options\<lparr>opt_batchSize := Some 11\<rparr>"]
        constructor_validates_options [of "example_options\<lparr>opt_batchSize := Some 0\<rparr>"]
        constructor_validates_options [of "example_options\<lparr>opt_queueUrl := None\<rparr>"]
        constructor_validates_options [of "example_options\<lparr>opt_handleMessage := None\<rparr>"]
  by (simp add: example_options_def truthy_string_def)

section \<open>Facts about the handler phase\<close>

lemma extendTimeout_call_handle:
  "ReceiptHandle (fst (extendTimeout_call c m)) = ReceiptHandle m"
  by (simp add: extendTimeout_call_def Let_def)

lemma extendTimeout_call_flag:
  "finishedProcessing (fst (extendTimeout_call c m)) = finishedProcessing m"
  by (simp add: extendTimeout_call_def Let_def)

lemma extendTimeout_call_guard:
  "a \<in> set (snd (extendTimeout_call c m)) \<Longrightarrow> is_guard_action a"
  by (auto simp: extendTimeout_call_def Let_def split: if_splits)

lemma extendTimeout_issued:
  "(case extendTimeout c m of (m', issued, later) \<Rightarrow> (m', issued)) = extendTimeout_call c m"
  by (simp add: extendTimeout_def extendTimeout_call_def Let_def)

lemma setup_call:
  "executeHandler_setup c m =
     (let m0 = m\<lparr>finishedProcessing := Some False, msg_visibilityTimeout := visibilityTimeout c\<rparr>
      in if extendVisibilityTimeout c then extendTimeout_call c m0 else (m0, []))"
  by (simp add: executeHandler_setup_def Let_def extendTimeout_issued)

lemma setup_handle:
  "ReceiptHandle (fst (executeHandler_setup c m)) = ReceiptHandle m"
  by (simp add: setup_call Let_def extendTimeout_call_handle)

lemma setup_flag:
  "finishedProcessing (fst (executeHandler_setup c m)) = Some False"
  by (simp add: setup_call Let_def extendTimeout_call_flag)

lemma setup_guard:
  "a \<in> set (snd (executeHandler_setup c m)) \<Longrightarrow> is_guard_action a"
  by (auto simp: setup_call Let_def dest: extendTimeout_call_guard split: if_splits)

lemma executeHandler_handle:
  "executeHandler c m = (m1, before, cleared, r) \<Longrightarrow> ReceiptHandle m1 = ReceiptHandle m"
  using setup_handle [of c m]
  by (auto simp: executeHandler_def createTimeout_def Let_def
           split: prod.splits outcome.splits if_splits)

lemma executeHandler_guard:
  "executeHandler c m = (m1, before, cleared, r) \<Longrightarrow> a \<in> set (before @ cleared) \<Longrightarrow>
     is_guard_action a"
  using setup_guard [of a c m]
  by (auto simp: executeHandler_def createTimeout_def Let_def
           split: prod.splits outcome.splits if_splits)

lemma guard_not_event:
  "is_guard_action a \<Longrightarrow>
     \<not> is_message_received a \<and> \<not> is_message_processed a \<and> \<not> is_timeout_error a \<and>
     \<not> is_failure_event a \<and> \<not> is_delete_call a \<and> a \<noteq> Emit ResponseProcessed \<and>
     a \<noteq> Invoke_poll"
  by (cases a rule: is_guard_action.cases) simp_all

section \<open>Facts about the message processor\<close>

lemma try_handle:
  "processMessage_try c m = (m1, before, after, r) \<Longrightarrow> ReceiptHandle m1 = ReceiptHandle m"
  by (auto simp: processMessage_try_def Let_def consumer_deleteMessage_def
           dest: executeHandler_handle split: prod.splits outcome.splits settled.splits)

lemma try_handler_thrown:
  "executeHandler c m = (m1, before, cleared, Thrown err) \<Longrightarrow>
     processMessage_try c m = (m1, before, cleared, Thrown err)"
  by (simp add: processMessage_try_def)

lemma try_handler_pending:
  "executeHandler c m = (m1, before, cleared, Pending) \<Longrightarrow>
     processMessage_try c m = (m1, before, cleared, Pending)"
  by (simp add: processMessage_try_def)

lemma try_deleted:
  assumes "executeHandler c m = (m1, before, cleared, Returned u)"
      and "deleteMessage (sqs c) (queueUrl c) (ReceiptHandle m) = Resolved v"
  shows "processMessage_try c m =
           (m1, before,
            cleared @ [Call (DeleteMessage (queueUrl c) (ReceiptHandle m)),
                       Emit (MessageProcessed m)],
            Returned ())"
  using assms executeHandler_handle [OF assms(1)]
  by (simp add: processMessage_try_def consumer_deleteMessage_def)

lemma try_delete_failed:
  assumes "executeHandler c m = (m1, before, cleared, Returned u)"
      and "deleteMessage (sqs c) (queueUrl c) (ReceiptHandle m) = Rejected err"
  shows "processMessage_try c m =
           (m1, before, cleared @ [Call (DeleteMessage (queueUrl c) (ReceiptHandle m))],
            Thrown (toSQSError err (''SQS delete message failed: '' @ message err)))"
  using assms executeHandler_handle [OF assms(1)]
  by (simp add: processMessage_try_def consumer_deleteMessage_def)

lemma catch_exact:
  "ReceiptHandle m1 = ReceiptHandle m \<Longrightarrow>
   processMessage_catch c m m1 err =
     (if \<not> error_listener c \<and> name err = SQSError_name
        then ([Emit (Error err (Some m))], Thrown err)
      else if terminateVisibilityTimeout c then
        (case changeMessageVisibility (sqs c) (queueUrl c) (ReceiptHandle m) (Some 0) of
           Resolved u \<Rightarrow> ([Emit (failure_event err m), Call (ChangeMessageVisibility (queueUrl c) (ReceiptHandle m) (Some 0))], Returned ())
         | Rejected err2 \<Rightarrow>
             ([Emit (failure_event err m), Call (ChangeMessageVisibility (queueUrl c) (ReceiptHandle m) (Some 0)), Emit (Error err2 (Some m))],
              if error_listener c then Returned () else Thrown err2))
      else ([Emit (failure_event err m)], Returned ()))"
  by (simp add: processMessage_catch_def terminateVisabilityTimeout_def emit_def
                failure_event_def
           split: settled.splits)

lemma processMessage_failed:
  assumes "processMessage_try c m = (m1, before, after, Thrown err)"
  shows "processMessage c m =
           \<lparr>pm_message = m1,
            pm_before = Emit (MessageReceived m) # before,
            pm_after = after @ fst (processMessage_catch c m m1 err),
            pm_result = snd (processMessage_catch c m m1 err)\<rparr>"
  using assms by (simp add: processMessage_def split: prod.splits)

lemma processMessage_not_failed:
  assumes "processMessage_try c m = (m1, before, after, r)" and "\<forall>err. r \<noteq> Thrown err"
  shows "processMessage c m =
           \<lparr>pm_message = m1, pm_before = Emit (MessageReceived m) # before,
            pm_after = after, pm_result = r\<rparr>"
  using assms by (cases r) (simp_all add: processMessage_def)

lemma catch_heard:
  "error_listener c \<Longrightarrow> snd (processMessage_catch c ref m err) = Returned ()"
  by (auto simp: processMessage_catch_def emit_def terminateVisabilityTimeout_def
           split: prod.splits outcome.splits event.splits settled.splits)

lemma processMessage_never_throws:
  assumes "error_listener c"
  shows "pm_result (processMessage c m) \<noteq> Thrown e"
proof -
  obtain m1 before after r where t: "processMessage_try c m = (m1, before, after, r)"
    by (cases "processMessage_try c m") auto
  show ?thesis
  proof (cases "\<exists>err. r = Thrown err")
    case True
    then obtain err where "r = Thrown err" by blast
    with t show ?thesis
      by (simp add: processMessage_failed catch_heard [OF assms])
  next
    case False
    then have "\<forall>err. r \<noteq> Thrown err" by blast
    then show ?thesis
      by (simp add: processMessage_not_failed [OF t])
  qed
qed

lemma try_before_guard:
  "processMessage_try c m = (m1, before, after, r) \<Longrightarrow> a \<in> set before \<Longrightarrow> is_guard_action a"
  by (auto simp: processMessage_try_def Let_def consumer_deleteMessage_def
           dest: executeHandler_guard split: prod.splits outcome.splits settled.splits)

lemma try_failed_after:
  assumes "processMessage_try c m = (m1, before, after, Thrown err)"
  shows "filter is_failure_event after = [] \<and> filter is_message_processed after = [] \<and>
         filter is_timeout_error after = [] \<and> filter is_message_received after = []"
proof -
  obtain m1' b cl h where eh: "executeHandler c m = (m1', b, cl, h)"
    by (cases "executeHandler c m") auto
  have g: "\<And>a. a \<in> set cl \<Longrightarrow> is_guard_action a"
    using executeHandler_guard [OF eh] by auto
  have cl: "filter is_failure_event cl = [] \<and> filter is_message_processed cl = [] \<and>
            filter is_timeout_error cl = [] \<and> filter is_message_received cl = []"
    using g guard_not_event by (simp add: filter_empty_conv)
  show ?thesis
    using assms eh cl
    by (auto simp: processMessage_try_def consumer_deleteMessage_def
             split: outcome.splits settled.splits)
qed

lemma executeHandler_resolved:
  assumes "handleMessage c (fst (executeHandler_setup c m)) = Resolves d"
      and "\<forall>t. handleMessageTimeout c = Some t \<and> t \<noteq> 0 \<longrightarrow> d < t"
  shows "\<exists>m1 before cleared. executeHandler c m = (m1, before, cleared, Returned ())"
  using assms
  by (auto simp: executeHandler_def Let_def truthy_nat_def createTimeout_def Promise_race_def
                 await_handler_def
           split: prod.splits option.splits)

lemma executeHandler_timed_out:
  assumes "handleMessageTimeout c = Some t" and "t \<noteq> 0"
      and "exceeds (handleMessage c (fst (executeHandler_setup c m))) t"
  shows "\<exists>m1 before cleared.
           executeHandler c m =
             (m1, before, cleared,
              Thrown (new_TimeoutError
                \<lparr>message := ''Message handler timed out after '' @ show_nat t @ ''ms: '' @
                              message new_TimeoutError\<rparr>))"
  using assms
  by (auto simp: executeHandler_def Let_def truthy_nat_def createTimeout_def Promise_race_def
                 exceeds_def
                 handler_failure_def instanceof_TimeoutError_def new_TimeoutError_def
                 show_budget_def
           split: prod.splits handler_run.splits)

lemma processMessage_succeeded:
  assumes "executeHandler c m = (m1, before, cleared, Returned u)"
      and "deleteMessage (sqs c) (queueUrl c) (ReceiptHandle m) = Resolved v"
  shows "processMessage c m =
           \<lparr>pm_message = m1, pm_before = Emit (MessageReceived m) # before,
            pm_after = cleared @ [Call (DeleteMessage (queueUrl c) (ReceiptHandle m)),
                                  Emit (MessageProcessed m)],
            pm_result = Returned ()\<rparr>"
  using try_deleted [OF assms] by (simp add: processMessage_def)

lemma guard_filters:
  assumes "\<And>a. a \<in> set xs \<Longrightarrow> is_guard_action a"
  shows "filter is_failure_event xs = []" "filter is_message_processed xs = []"
        "filter is_timeout_error xs = []" "filter is_message_received xs = []"
        "filter is_delete_call xs = []"
  using assms guard_not_event by (simp_all add: filter_empty_conv)

text \<open>
  C6. When the handler of a message resolves (within the budget, when one is configured)
  and the delete call succeeds, the processing of that message issues exactly one
  \<^verbatim>\<open>deleteMessage\<close> call, with the message's receipt handle, emits exactly one
  \<^verbatim>\<open>message_processed\<close> event, and emits no \<^verbatim>\<open>error\<close>,
  \<^verbatim>\<open>timeout_error\<close> or \<^verbatim>\<open>processing_error\<close> event.
\<close>

theorem successful_message_deleted_once:
  assumes "handleMessage c (fst (executeHandler_setup c m)) = Resolves d"
      and "\<forall>t. handleMessageTimeout c = Some t \<and> t \<noteq> 0 \<longrightarrow> d < t"
      and "deleteMessage (sqs c) (queueUrl c) (ReceiptHandle m) = Resolved ()"
  shows "filter is_delete_call (pm_before (processMessage c m) @ pm_after (processMessage c m)) =
           [Call (DeleteMessage (queueUrl c) (ReceiptHandle m))]
       \<and> filter is_message_processed
           (pm_before (processMessage c m) @ pm_after (processMessage c m)) =
           [Emit (MessageProcessed m)]
       \<and> filter is_failure_event
           (pm_before (processMessage c m) @ pm_after (processMessage c m)) = []
       \<and> pm_result (processMessage c m) = Returned ()"
proof -
  obtain m1 before cleared where eh: "executeHandler c m = (m1, before, cleared, Returned ())"
    using executeHandler_resolved [OF assms(1,2)] by blast
  have g1: "\<And>a. a \<in> set before \<Longrightarrow> is_guard_action a"
   and g2: "\<And>a. a \<in> set cleared \<Longrightarrow> is_guard_action a"
    using executeHandler_guard [OF eh] by auto
  show ?thesis
    by (simp add: processMessage_succeeded [OF eh assms(3)] guard_filters [OF g1]
                  guard_filters [OF g2])
qed

theorem successful_message_deleted_once_witness:
  "filter is_delete_call
     (pm_before (processMessage example_consumer (example_message ''A'')) @
      pm_after (processMessage example_consumer (example_message ''A''))) =
     [Call (DeleteMessage ''https://queue'' ''A'')]
   \<and> filter is_message_processed
     (pm_before (processMessage example_consumer (example_message ''A'')) @
      pm_after (processMessage example_consumer (example_message ''A''))) =
     [Emit (MessageProcessed (example_message ''A''))]
   \<and> filter is_failure_event
     (pm_before (processMessage example_consumer (example_message ''A'')) @
      pm_after (processMessage example_consumer (example_message ''A''))) = []"
proof -
  have h1: "handleMessage example_consumer
              (fst (executeHandler_setup example_consumer (example_message ''A''))) = Resolves 5"
    by (simp add: example_defs)
  have h2: "\<forall>t. handleMessageTimeout example_consumer = Some t \<and> t \<noteq> 0 \<longrightarrow> 5 < t"
    by (simp add: example_defs)
  have h3: "deleteMessage (sqs example_consumer) (queueUrl example_consumer)
              (ReceiptHandle (example_message ''A'')) = Resolved ()"
    by (simp add: example_defs)
  have q: "queueUrl example_consumer = ''https://queue''"
          "ReceiptHandle (example_message ''A'') = ''A''"
    by (simp_all add: example_defs)
  show ?thesis
    using successful_message_deleted_once [OF h1 h2 h3] by (simp add: q)
qed

text \<open>
  C8. When the processing of a message fails with the terminate-visibility flag enabled,
  the failure event is followed by a \<^verbatim>\<open>changeMessageVisibility\<close> call with timeout
  0 for the message's receipt handle, provided the consumer has an \<^verbatim>\<open>error\<close>
  listener or the failure event is not \<^verbatim>\<open>error\<close>; when that call fails, its error
  is emitted as an \<^verbatim>\<open>error\<close> event. With an \<^verbatim>\<open>error\<close> listener the processing
  returns normally in every case. Without one, \<^verbatim>\<open>emit('error', ...)\<close> throws: a
  failure reported as \<^verbatim>\<open>error\<close> leaves \<^verbatim>\<open>_processMessage\<close> before the release,
  and a failed release is thrown out of \<^verbatim>\<open>_processMessage\<close>.
\<close>

theorem failed_message_visibility_released:
  assumes "terminateVisibilityTimeout c"
      and "processMessage_try c m = (m1, before, after, Thrown err)"
  shows "(error_listener c \<or> name err \<noteq> SQSError_name \<longrightarrow>
            pm_after (processMessage c m) =
              after @ [Emit (failure_event err m), Call (ChangeMessageVisibility (queueUrl c) (ReceiptHandle m) (Some 0))] @
                (case changeMessageVisibility (sqs c) (queueUrl c) (ReceiptHandle m) (Some 0) of
                   Resolved u \<Rightarrow> []
                 | Rejected err2 \<Rightarrow> [Emit (Error err2 (Some m))]))
       \<and> (error_listener c \<longrightarrow> pm_result (processMessage c m) = Returned ())
       \<and> (\<not> error_listener c \<and> name err \<noteq> SQSError_name \<longrightarrow>
            pm_result (processMessage c m) =
              (case changeMessageVisibility (sqs c) (queueUrl c) (ReceiptHandle m) (Some 0) of
                 Resolved u \<Rightarrow> Returned ()
               | Rejected err2 \<Rightarrow> Thrown err2))
       \<and> (\<not> error_listener c \<and> name err = SQSError_name \<longrightarrow>
            pm_after (processMessage c m) = after @ [Emit (Error err (Some m))]
            \<and> pm_result (processMessage c m) = Thrown err)"
  using assms(1)
  by (auto simp: processMessage_failed [OF assms(2)] catch_exact [OF try_handle [OF assms(2)]]
           split: settled.splits)

theorem failed_message_visibility_released_witness:
  "pm_after (processMessage example_rejecting_consumer (example_message ''A'')) =
     [Emit (ProcessingError
              ((new_Error ''bad input'')
                 \<lparr>message := ''Unexpected message handler failure: bad input''\<rparr>)
              (example_message ''A'')),
      Call (ChangeMessageVisibility ''https://queue'' ''A'' (Some 0)),
      Emit (Error (example_failure 500) (Some (example_message ''A'')))]
   \<and> pm_result (processMessage example_rejecting_consumer (example_message ''A'')) = Returned ()
   \<and> pm_result (processMessage (example_rejecting_consumer\<lparr>error_listener := False\<rparr>)
                  (example_message ''A'')) = Thrown (example_failure 500)
   \<and> pm_after (processMessage example_unheard_consumer (example_message ''A'')) =
       [Call (DeleteMessage ''https://queue'' ''A''),
        Emit (Error (toSQSError (example_failure 503)
                       ''SQS delete message failed: service failure'')
                (Some (example_message ''A'')))]
   \<and> pm_result (processMessage example_unheard_consumer (example_message ''A'')) =
       Thrown (toSQSError (example_failure 503) ''SQS delete message failed: service failure'')"
proof -
  let ?e = "(new_Error ''bad input'')
              \<lparr>message := ''Unexpected message handler failure: bad input''\<rparr>"
  let ?s = "toSQSError (example_failure 503) ''SQS delete message failed: service failure''"
  let ?m1 = "(example_message ''A'')
               \<lparr>finishedProcessing := Some True, msg_visibilityTimeout := Some 30\<rparr>"
  let ?m0 = "(example_message ''A'')
               \<lparr>finishedProcessing := Some False, msg_visibilityTimeout := Some 30\<rparr>"
  have f1: "terminateVisibilityTimeout example_rejecting_consumer"
   and f2: "terminateVisibilityTimeout (example_rejecting_consumer\<lparr>error_listener := False\<rparr>)"
   and f3: "terminateVisibilityTimeout example_unheard_consumer"
    by (simp_all add: example_defs)
  have t1: "processMessage_try example_rejecting_consumer (example_message ''A'') =
              (?m1, [], [], Thrown ?e)"
   and t2: "processMessage_try (example_rejecting_consumer\<lparr>error_listener := False\<rparr>)
              (example_message ''A'') = (?m1, [], [], Thrown ?e)"
   and t3: "processMessage_try example_unheard_consumer (example_message ''A'') =
              (?m0, [], [Call (DeleteMessage ''https://queue'' ''A'')], Thrown ?s)"
    by (simp_all add: example_defs model_defs)
  have l: "error_listener example_rejecting_consumer"
          "\<not> error_listener (example_rejecting_consumer\<lparr>error_listener := False\<rparr>)"
          "\<not> error_listener example_unheard_consumer"
    by (simp_all add: example_defs)
  have n: "name ?e \<noteq> SQSError_name" "name ?s = SQSError_name"
    by (simp_all add: new_Error_def toSQSError_def new_SQSError_def SQSError_name_def)
  have e: "failure_event ?e (example_message ''A'') = ProcessingError ?e (example_message ''A'')"
    by (simp add: failure_event_def instanceof_TimeoutError_def new_Error_def SQSError_name_def)
  have r: "changeMessageVisibility (sqs example_rejecting_consumer)
             (queueUrl example_rejecting_consumer) (ReceiptHandle (example_message ''A''))
             (Some 0) = Rejected (example_failure 500)"
          "changeMessageVisibility (sqs (example_rejecting_consumer\<lparr>error_listener := False\<rparr>))
             (queueUrl (example_rejecting_consumer\<lparr>error_listener := False\<rparr>))
             (ReceiptHandle (example_message ''A'')) (Some 0) = Rejected (example_failure 500)"
    by (simp_all add: example_defs)
  have q: "queueUrl example_rejecting_consumer = ''https://queue''"
          "ReceiptHandle (example_message ''A'') = ''A''"
    by (simp_all add: example_defs)
  have n': "name (new_Error ''bad input'') \<noteq> SQSError_name"
    by (simp add: new_Error_def SQSError_name_def)
  have r': "changeMessageVisibility (sqs example_rejecting_consumer) ''https://queue'' ''A''
              (Some 0) = Rejected (example_failure 500)"
    by (simp add: example_defs)
  show ?thesis
    using failed_message_visibility_released [OF f1 t1]
          failed_message_visibility_released [OF f2 t2]
          failed_message_visibility_released [OF f3 t3]
    by (simp add: l n n' e r r' q)
qed

text \<open>
  Without an \<^verbatim>\<open>error\<close> listener and with the flag set: after a failed delete the
  \<^verbatim>\<open>error\<close> event is the last action of the message, and no release call follows;
  after a handler failure the release is called, and when it fails its error is thrown out
  of the processing.
\<close>

theorem release_skipped_or_rethrown_without_listener:
  "pm_after (processMessage example_unheard_consumer (example_message ''B'')) =
     [Call (DeleteMessage ''https://queue'' ''B''),
      Emit (Error (toSQSError (example_failure 503)
                     ''SQS delete message failed: service failure'')
              (Some (example_message ''B'')))]
   \<and> terminateVisibilityTimeout example_unheard_consumer
   \<and> pm_after (processMessage (example_rejecting_consumer\<lparr>error_listener := False\<rparr>)
                 (example_message ''B'')) =
       [Emit (ProcessingError
                ((new_Error ''bad input'')
                   \<lparr>message := ''Unexpected message handler failure: bad input''\<rparr>)
                (example_message ''B'')),
        Call (ChangeMessageVisibility ''https://queue'' ''B'' (Some 0)),
        Emit (Error (example_failure 500) (Some (example_message ''B'')))]
   \<and> pm_result (processMessage (example_rejecting_consumer\<lparr>error_listener := False\<rparr>)
                  (example_message ''B'')) = Thrown (example_failure 500)"
  by (simp add: example_defs model_defs)

lemma Promise_all_not_thrown:
  "(\<And>r. r \<in> set rs \<Longrightarrow> \<forall>e. r \<noteq> Thrown e) \<Longrightarrow> Promise_all rs \<noteq> Thrown e"
  by (induction rs) (auto split: outcome.splits)

lemma Promise_all_returned:
  "(\<And>r. r \<in> set rs \<Longrightarrow> r = Returned ()) \<Longrightarrow> Promise_all rs = Returned ()"
  by (induction rs) (auto split: outcome.splits)

lemma Promise_all_returned_iff:
  "Promise_all rs = Returned () \<longleftrightarrow> (\<forall>r \<in> set rs. r = Returned ())"
  by (induction rs) (auto split: outcome.splits)

text \<open>
  C5. When the processing of a message fails, the failure is caught by the processor and
  reported by exactly one event, with the error and the message: \<^verbatim>\<open>error\<close> when the
  error's name is \<^verbatim>\<open>SQSError\<close>, otherwise \<^verbatim>\<open>timeout_error\<close> when it is a
  \<^verbatim>\<open>TimeoutError\<close>, otherwise \<^verbatim>\<open>processing_error\<close> (the only other failure event
  a message can have is the \<^verbatim>\<open>error\<close> of a failed visibility release). On a consumer
  with an \<^verbatim>\<open>error\<close> listener the processor never rethrows, so \<^verbatim>\<open>Promise.all\<close>
  over a batch is never rejected and neither the batch nor the poll loop is aborted.
  Without an \<^verbatim>\<open>error\<close> listener \<^verbatim>\<open>emit('error', ...)\<close> throws, and the processor
  rethrows exactly a failure reported as \<^verbatim>\<open>error\<close> and the error of a failed release.
\<close>

theorem message_failure_classified:
  assumes "processMessage_try c m = (m1, before, after, Thrown err)"
  shows "filter is_failure_event (pm_before (processMessage c m) @ pm_after (processMessage c m)) =
           Emit (if name err = SQSError_name then Error err (Some m)
                 else if ctor err = TimeoutErrorC then TimeoutErrorEvent err m
                 else ProcessingError err m) #
             (if terminateVisibilityTimeout c \<and> (error_listener c \<or> name err \<noteq> SQSError_name)
                then (case changeMessageVisibility (sqs c) (queueUrl c) (ReceiptHandle m) (Some 0) of
                        Resolved u \<Rightarrow> []
                      | Rejected err2 \<Rightarrow> [Emit (Error err2 (Some m))])
              else [])
       \<and> (error_listener c \<longrightarrow>
            pm_result (processMessage c m) = Returned ()
            \<and> (\<forall>ms e. Promise_all (map (\<lambda>x. pm_result (processMessage c x)) ms) \<noteq> Thrown e))
       \<and> (\<not> error_listener c \<longrightarrow>
            pm_result (processMessage c m) =
              (if name err = SQSError_name then Thrown err
               else if terminateVisibilityTimeout c then
                 (case changeMessageVisibility (sqs c) (queueUrl c) (ReceiptHandle m) (Some 0) of
                    Resolved u \<Rightarrow> Returned ()
                  | Rejected err2 \<Rightarrow> Thrown err2)
               else Returned ()))"
proof (intro conjI impI allI)
  have g: "\<And>a. a \<in> set before \<Longrightarrow> is_guard_action a"
    using try_before_guard [OF assms] by blast
  show "filter is_failure_event (pm_before (processMessage c m) @ pm_after (processMessage c m)) =
           Emit (if name err = SQSError_name then Error err (Some m)
                 else if ctor err = TimeoutErrorC then TimeoutErrorEvent err m
                 else ProcessingError err m) #
             (if terminateVisibilityTimeout c \<and> (error_listener c \<or> name err \<noteq> SQSError_name)
                then (case changeMessageVisibility (sqs c) (queueUrl c) (ReceiptHandle m) (Some 0) of
                        Resolved u \<Rightarrow> []
                      | Rejected err2 \<Rightarrow> [Emit (Error err2 (Some m))])
              else [])"
    using try_failed_after [OF assms]
    by (simp add: processMessage_failed [OF assms] catch_exact [OF try_handle [OF assms]]
                  guard_filters [OF g] failure_event_def instanceof_TimeoutError_def
             split: settled.splits)
next
  assume l: "error_listener c"
  show "pm_result (processMessage c m) = Returned ()"
    by (simp add: processMessage_failed [OF assms] catch_heard [OF l])
  fix ms e
  show "Promise_all (map (\<lambda>x. pm_result (processMessage c x)) ms) \<noteq> Thrown e"
    by (rule Promise_all_not_thrown) (auto simp: processMessage_never_throws [OF l])
next
  assume "\<not> error_listener c"
  then show "pm_result (processMessage c m) =
              (if name err = SQSError_name then Thrown err
               else if terminateVisibilityTimeout c then
                 (case changeMessageVisibility (sqs c) (queueUrl c) (ReceiptHandle m) (Some 0) of
                    Resolved u \<Rightarrow> Returned ()
                  | Rejected err2 \<Rightarrow> Thrown err2)
               else Returned ())"
    by (simp add: processMessage_failed [OF assms] catch_exact [OF try_handle [OF assms]]
             split: settled.splits)
qed

theorem message_failure_classified_witness:
  "filter is_failure_event
     (pm_before (processMessage example_rejecting_consumer (example_message ''B'')) @
      pm_after (processMessage example_rejecting_consumer (example_message ''B''))) =
     [Emit (ProcessingError
              ((new_Error ''bad input'')
                 \<lparr>message := ''Unexpected message handler failure: bad input''\<rparr>)
              (example_message ''B'')),
      Emit (Error (example_failure 500) (Some (example_message ''B'')))]
   \<and> pm_result (processMessage example_rejecting_consumer (example_message ''B'')) = Returned ()
   \<and> filter is_failure_event
       (pm_before (processMessage example_slow_consumer (example_message ''B'')) @
        pm_after (processMessage example_slow_consumer (example_message ''B''))) =
       [Emit (TimeoutErrorEvent
                (new_TimeoutError
                   \<lparr>message := ''Message handler timed out after 100ms: Operation timed out.''\<rparr>)
                (example_message ''B''))]
   \<and> filter is_failure_event
       (pm_before (processMessage example_undeletable_consumer (example_message ''B'')) @
        pm_after (processMessage example_undeletable_consumer (example_message ''B''))) =
       [Emit (Error (toSQSError (example_failure 503)
                       ''SQS delete message failed: service failure'')
                (Some (example_message ''B'')))]
   \<and> pm_result (processMessage (example_rejecting_consumer\<lparr>error_listener := False\<rparr>)
                  (example_message ''B'')) = Thrown (example_failure 500)"
proof -
  let ?e = "(new_Error ''bad input'')
              \<lparr>message := ''Unexpected message handler failure: bad input''\<rparr>"
  let ?t = "new_TimeoutError
              \<lparr>message := ''Message handler timed out after 100ms: Operation timed out.''\<rparr>"
  let ?s = "toSQSError (example_failure 503) ''SQS delete message failed: service failure''"
  let ?m1 = "(example_message ''B'')
               \<lparr>finishedProcessing := Some True, msg_visibilityTimeout := Some 30\<rparr>"
  let ?m0 = "(example_message ''B'')
               \<lparr>finishedProcessing := Some False, msg_visibilityTimeout := Some 30\<rparr>"
  have t1: "processMessage_try example_rejecting_consumer (example_message ''B'') =
              (?m1, [], [], Thrown ?e)"
   and t2: "processMessage_try (example_rejecting_consumer\<lparr>error_listener := False\<rparr>)
              (example_message ''B'') = (?m1, [], [], Thrown ?e)"
   and t3: "processMessage_try example_undeletable_consumer (example_message ''B'') =
              (?m0, [], [Call (DeleteMessage ''https://queue'' ''B'')], Thrown ?s)"
    by (simp_all add: example_defs model_defs)
  have t4: "processMessage_try example_slow_consumer (example_message ''B'') =
              (?m1, [SetTimeout (DeadlineTimer ''B'') (Some 100)],
               [ClearTimeout (DeadlineTimer ''B'')], Thrown ?t)"
    by (simp add: example_defs model_defs show_nat.simps)
  have l: "error_listener example_rejecting_consumer"
          "\<not> error_listener (example_rejecting_consumer\<lparr>error_listener := False\<rparr>)"
          "error_listener example_slow_consumer"
          "error_listener example_undeletable_consumer"
    by (simp_all add: example_defs)
  have f: "terminateVisibilityTimeout example_rejecting_consumer"
          "\<not> terminateVisibilityTimeout example_slow_consumer"
          "terminateVisibilityTimeout example_undeletable_consumer"
    by (simp_all add: example_defs)
  have n: "name (new_Error ''bad input'') \<noteq> SQSError_name"
          "ctor (new_Error ''bad input'') \<noteq> TimeoutErrorC"
          "name new_TimeoutError \<noteq> SQSError_name" "ctor new_TimeoutError = TimeoutErrorC"
          "name ?s = SQSError_name"
    by (simp_all add: new_Error_def new_TimeoutError_def toSQSError_def new_SQSError_def
                      SQSError_name_def)
  have r: "changeMessageVisibility (sqs example_rejecting_consumer) ''https://queue'' ''B''
              (Some 0) = Rejected (example_failure 500)"
          "changeMessageVisibility (sqs example_undeletable_consumer) ''https://queue'' ''B''
              (Some 0) = Resolved ()"
    by (simp_all add: example_defs)
  have q: "queueUrl example_rejecting_consumer = ''https://queue''"
          "queueUrl example_undeletable_consumer = ''https://queue''"
          "ReceiptHandle (example_message ''B'') = ''B''"
    by (simp_all add: example_defs)
  show ?thesis
    using message_failure_classified [OF t1] message_failure_classified [OF t2]
          message_failure_classified [OF t3] message_failure_classified [OF t4]
    by (simp add: l f n r q)
qed

text \<open>
  Without an \<^verbatim>\<open>error\<close> listener a failed delete is rethrown by the processor: the
  batch ends with a rejection that nothing handles, without \<^verbatim>\<open>response_processed\<close>
  and without a next poll cycle.
\<close>

theorem failure_rethrown_without_listener:
  "pm_result (processMessage example_unheard_consumer (example_message ''A'')) =
     Thrown (toSQSError (example_failure 503) ''SQS delete message failed: service failure'')
   \<and> handleSqsResponse example_unheard_consumer (Some example_single_batch) =
       {[Emit (MessageReceived (example_message ''A'')),
         Call (DeleteMessage ''https://queue'' ''A''),
         Emit (Error (toSQSError (example_failure 503)
                        ''SQS delete message failed: service failure'')
                 (Some (example_message ''A''))),
         Unhandled (toSQSError (example_failure 503)
                      ''SQS delete message failed: service failure'')]}"
proof -
  have p: "processMessage example_unheard_consumer (example_message ''A'') =
     \<lparr>pm_message = (example_message ''A'')
        \<lparr>finishedProcessing := Some False, msg_visibilityTimeout := Some 30\<rparr>,
      pm_before = [Emit (MessageReceived (example_message ''A''))],
      pm_after = [Call (DeleteMessage ''https://queue'' ''A''),
                  Emit (Error (toSQSError (example_failure 503)
                                 ''SQS delete message failed: service failure'')
                          (Some (example_message ''A'')))],
      pm_result = Thrown (toSQSError (example_failure 503)
                            ''SQS delete message failed: service failure'')\<rparr>"
    by (simp add: example_defs model_defs)
  show ?thesis
    by (simp add: p handleSqsResponse_def hasMessages_def example_single_batch_def
                  rejection_def)
qed

lemma executeHandler_cleared:
  "executeHandler c m = (m1, before, cleared, r) \<Longrightarrow> a \<in> set cleared \<Longrightarrow>
     \<exists>tm. a = ClearTimeout tm"
  by (auto simp: executeHandler_def createTimeout_def Let_def
           split: prod.splits outcome.splits if_splits)

text \<open>
  C10. When the handler resolves and the \<^verbatim>\<open>deleteMessage\<close> call fails, the failure
  is wrapped into an \<^verbatim>\<open>SQSError\<close> whose message starts with
  \<^verbatim>\<open>SQS delete message failed:\<close> and whose code and status code are those of the
  underlying error; it is emitted as an \<^verbatim>\<open>error\<close> event with the message, and no
  \<^verbatim>\<open>message_processed\<close> event is emitted. On a consumer with an \<^verbatim>\<open>error\<close>
  listener and the terminate-visibility flag the visibility release is still attempted, and
  the processing returns normally. Without an \<^verbatim>\<open>error\<close> listener the
  \<^verbatim>\<open>emit\<close> throws the wrapped error out of \<^verbatim>\<open>_processMessage\<close> and no release
  is attempted.
\<close>

theorem delete_failure_reported:
  assumes "handleMessage c (fst (executeHandler_setup c m)) = Resolves d"
      and "\<forall>t. handleMessageTimeout c = Some t \<and> t \<noteq> 0 \<longrightarrow> d < t"
      and "deleteMessage (sqs c) (queueUrl c) (ReceiptHandle m) = Rejected e"
      and "err = toSQSError e (''SQS delete message failed: '' @ message e)"
  shows "ctor err = SQSErrorC \<and> name err = SQSError_name
       \<and> message err = ''SQS delete message failed: '' @ message e
       \<and> code err = code e \<and> statusCode err = statusCode e
       \<and> filter is_failure_event (pm_before (processMessage c m) @ pm_after (processMessage c m)) =
           Emit (Error err (Some m)) #
             (if error_listener c \<and> terminateVisibilityTimeout c then
                (case changeMessageVisibility (sqs c) (queueUrl c) (ReceiptHandle m) (Some 0) of
                   Resolved u \<Rightarrow> []
                 | Rejected err2 \<Rightarrow> [Emit (Error err2 (Some m))])
              else [])
       \<and> filter is_message_processed (pm_before (processMessage c m) @ pm_after (processMessage c m)) = []
       \<and> (error_listener c \<and> terminateVisibilityTimeout c \<longrightarrow>
            (\<exists>pre post. pm_after (processMessage c m) =
               pre @ [Emit (Error err (Some m)), Call (ChangeMessageVisibility (queueUrl c) (ReceiptHandle m) (Some 0))] @ post))
       \<and> (error_listener c \<longrightarrow> pm_result (processMessage c m) = Returned ())
       \<and> (\<not> error_listener c \<longrightarrow>
            Call (ChangeMessageVisibility (queueUrl c) (ReceiptHandle m) (Some 0)) \<notin> set (pm_after (processMessage c m))
            \<and> pm_result (processMessage c m) = Thrown err)"
proof -
  obtain m1 before cleared where eh: "executeHandler c m = (m1, before, cleared, Returned ())"
    using executeHandler_resolved [OF assms(1,2)] by blast
  have t: "processMessage_try c m =
             (m1, before, cleared @ [Call (DeleteMessage (queueUrl c) (ReceiptHandle m))],
              Thrown err)"
    using try_delete_failed [OF eh assms(3)] assms(4) by simp
  have g1: "\<And>a. a \<in> set before \<Longrightarrow> is_guard_action a"
   and g2: "\<And>a. a \<in> set cleared \<Longrightarrow> is_guard_action a"
    using executeHandler_guard [OF eh] by auto
  have cl: "Call (ChangeMessageVisibility (queueUrl c) (ReceiptHandle m) (Some 0)) \<notin> set cleared"
    using executeHandler_cleared [OF eh] by auto
  have fields: "ctor err = SQSErrorC \<and> name err = SQSError_name
       \<and> message err = ''SQS delete message failed: '' @ message e
       \<and> code err = code e \<and> statusCode err = statusCode e"
    using assms(4) by (simp add: toSQSError_def new_SQSError_def)
  have fe: "failure_event err m = Error err (Some m)"
    using fields by (simp add: failure_event_def)
  have pm: "processMessage c m =
           \<lparr>pm_message = m1,
            pm_before = Emit (MessageReceived m) # before,
            pm_after = (cleared @ [Call (DeleteMessage (queueUrl c) (ReceiptHandle m))]) @
               fst (processMessage_catch c m m1 err),
            pm_result = snd (processMessage_catch c m m1 err)\<rparr>"
    by (rule processMessage_failed [OF t])
  note ca = catch_exact [OF try_handle [OF t], of c err]
  have events: "filter is_failure_event (pm_before (processMessage c m) @ pm_after (processMessage c m)) =
           Emit (Error err (Some m)) #
             (if error_listener c \<and> terminateVisibilityTimeout c then
                (case changeMessageVisibility (sqs c) (queueUrl c) (ReceiptHandle m) (Some 0) of
                   Resolved u \<Rightarrow> []
                 | Rejected err2 \<Rightarrow> [Emit (Error err2 (Some m))])
              else [])"
    using fields
    by (simp add: pm ca fe guard_filters [OF g1] guard_filters [OF g2] split: settled.splits)
  have none: "filter is_message_processed (pm_before (processMessage c m) @ pm_after (processMessage c m)) = []"
    using fields
    by (simp add: pm ca fe guard_filters [OF g1] guard_filters [OF g2] split: settled.splits)
  have rel: "error_listener c \<and> terminateVisibilityTimeout c \<longrightarrow>
            (\<exists>pre post. pm_after (processMessage c m) =
               pre @ [Emit (Error err (Some m)), Call (ChangeMessageVisibility (queueUrl c) (ReceiptHandle m) (Some 0))] @ post)"
  proof
    assume f: "error_listener c \<and> terminateVisibilityTimeout c"
    have "pm_after (processMessage c m) =
            (cleared @ [Call (DeleteMessage (queueUrl c) (ReceiptHandle m))]) @
              [Emit (Error err (Some m)), Call (ChangeMessageVisibility (queueUrl c) (ReceiptHandle m) (Some 0))] @
              (case changeMessageVisibility (sqs c) (queueUrl c) (ReceiptHandle m) (Some 0) of
                Resolved u \<Rightarrow> []
              | Rejected err2 \<Rightarrow> [Emit (Error err2 (Some m))])"
      using f by (simp add: pm ca fe split: settled.splits)
    then show "\<exists>pre post. pm_after (processMessage c m) =
               pre @ [Emit (Error err (Some m)), Call (ChangeMessageVisibility (queueUrl c) (ReceiptHandle m) (Some 0))] @ post"
      by blast
  qed
  have heard: "error_listener c \<longrightarrow> pm_result (processMessage c m) = Returned ()"
    by (simp add: pm catch_heard)
  have unheard: "\<not> error_listener c \<longrightarrow>
            Call (ChangeMessageVisibility (queueUrl c) (ReceiptHandle m) (Some 0)) \<notin> set (pm_after (processMessage c m))
            \<and> pm_result (processMessage c m) = Thrown err"
    using fields cl by (simp add: pm ca)
  show ?thesis
    using fields events none rel heard unheard by blast
qed

theorem delete_failure_reported_witness:
  "filter is_failure_event
     (pm_before (processMessage example_undeletable_consumer (example_message ''A'')) @
      pm_after (processMessage example_undeletable_consumer (example_message ''A''))) =
     [Emit (Error (toSQSError (example_failure 503)
                     ''SQS delete message failed: service failure'')
              (Some (example_message ''A'')))]
   \<and> statusCode (toSQSError (example_failure 503)
                    ''SQS delete message failed: service failure'') = Some 503
   \<and> filter is_message_processed
     (pm_before (processMessage example_undeletable_consumer (example_message ''A'')) @
      pm_after (processMessage example_undeletable_consumer (example_message ''A''))) = []
   \<and> pm_result (processMessage example_undeletable_consumer (example_message ''A'')) =
       Returned ()
   \<and> pm_result (processMessage example_unheard_consumer (example_message ''A'')) =
       Thrown (toSQSError (example_failure 503) ''SQS delete message failed: service failure'')"
proof -
  have h1: "handleMessage example_undeletable_consumer
              (fst (executeHandler_setup example_undeletable_consumer (example_message ''A''))) =
            Resolves 5"
   and g1: "handleMessage example_unheard_consumer
              (fst (executeHandler_setup example_unheard_consumer (example_message ''A''))) =
            Resolves 5"
    by (simp_all add: example_defs)
  have h2: "\<forall>t. handleMessageTimeout example_undeletable_consumer = Some t \<and> t \<noteq> 0 \<longrightarrow> 5 < t"
   and g2: "\<forall>t. handleMessageTimeout example_unheard_consumer = Some t \<and> t \<noteq> 0 \<longrightarrow> 5 < t"
    by (simp_all add: example_defs)
  have h3: "deleteMessage (sqs example_undeletable_consumer)
              (queueUrl example_undeletable_consumer) (ReceiptHandle (example_message ''A'')) =
            Rejected (example_failure 503)"
   and g3: "deleteMessage (sqs example_unheard_consumer)
              (queueUrl example_unheard_consumer) (ReceiptHandle (example_message ''A'')) =
            Rejected (example_failure 503)"
    by (simp_all add: example_defs)
  have h4: "toSQSError (example_failure 503) ''SQS delete message failed: service failure'' =
            toSQSError (example_failure 503)
              (''SQS delete message failed: '' @ message (example_failure 503))"
    by (simp add: example_failure_def new_Error_def)
  have f: "terminateVisibilityTimeout example_undeletable_consumer"
          "error_listener example_undeletable_consumer"
          "\<not> error_listener example_unheard_consumer"
    by (simp_all add: example_defs)
  have r: "changeMessageVisibility (sqs example_undeletable_consumer)
             (queueUrl example_undeletable_consumer) (ReceiptHandle (example_message ''A''))
             (Some 0) = Resolved ()"
    by (simp add: example_defs)
  have st: "statusCode (example_failure 503) = Some 503"
    by (simp add: example_failure_def)
  show ?thesis
    using delete_failure_reported [OF h1 h2 h3 h4] delete_failure_reported [OF g1 g2 g3 h4]
    by (simp add: f r st)
qed

text \<open>
  The handler resolves, the delete fails, the flag is set and \<^verbatim>\<open>error\<close> has no
  listener: the wrapped error is emitted and thrown, and no release call is made.
\<close>

theorem release_not_attempted_without_listener:
  "terminateVisibilityTimeout example_unheard_consumer
   \<and> pm_before (processMessage example_unheard_consumer (example_message ''C'')) =
       [Emit (MessageReceived (example_message ''C''))]
   \<and> pm_after (processMessage example_unheard_consumer (example_message ''C'')) =
       [Call (DeleteMessage ''https://queue'' ''C''),
        Emit (Error (toSQSError (example_failure 503)
                       ''SQS delete message failed: service failure'')
                (Some (example_message ''C'')))]
   \<and> pm_result (processMessage example_unheard_consumer (example_message ''C'')) =
       Thrown (toSQSError (example_failure 503) ''SQS delete message failed: service failure'')"
  by (simp add: example_defs model_defs)

lemma executeHandler_unguarded:
  assumes "\<not> truthy_nat (handleMessageTimeout c)"
      and "executeHandler c m = (m1, before, cleared, r)"
  shows "filter is_timer (before @ cleared) = []
       \<and> r = (case handleMessage c (fst (executeHandler_setup c m)) of
                Resolves d \<Rightarrow> Returned ()
              | Rejects d err \<Rightarrow> Thrown (handler_failure c err)
              | Hangs \<Rightarrow> Pending)"
proof -
  have "filter is_timer (snd (executeHandler_setup c m)) = []"
    by (auto simp: setup_call extendTimeout_call_def Let_def)
  then show ?thesis
    using assms
    by (auto simp: executeHandler_def createTimeout_def Let_def await_handler_def
             split: prod.splits handler_run.splits)
qed

text \<open>
  C7. When the handler of a message exceeds the configured budget, exactly one
  \<^verbatim>\<open>timeout_error\<close> event is emitted, its error message contains the budget in
  milliseconds, and no delete call is issued for the message (the processing returns
  normally, unless the visibility release fails on a consumer without an \<^verbatim>\<open>error\<close>
  listener, whose \<^verbatim>\<open>emit\<close> then throws). When no budget is configured
  no timer is set and the handler is awaited directly: the settlement is the handler's own,
  whatever time it takes.
\<close>

theorem handler_timeout_reported:
  "(\<forall>t. handleMessageTimeout c = Some t \<and> t \<noteq> 0 \<and>
         exceeds (handleMessage c (fst (executeHandler_setup c m))) t \<longrightarrow>
      filter is_timeout_error (pm_before (processMessage c m) @ pm_after (processMessage c m)) =
        [Emit (TimeoutErrorEvent
                 (new_TimeoutError
                    \<lparr>message := ''Message handler timed out after '' @ show_nat t @ ''ms: '' @
                                  message new_TimeoutError\<rparr>) m)]
      \<and> filter is_delete_call
          (pm_before (processMessage c m) @ pm_after (processMessage c m)) = []
      \<and> pm_result (processMessage c m) =
          (if terminateVisibilityTimeout c \<and> \<not> error_listener c then
             (case changeMessageVisibility (sqs c) (queueUrl c) (ReceiptHandle m) (Some 0) of
                Resolved u \<Rightarrow> Returned ()
              | Rejected err2 \<Rightarrow> Thrown err2)
           else Returned ()))
   \<and> (\<not> truthy_nat (handleMessageTimeout c) \<longrightarrow>
        (\<forall>m1 before cleared r.
           executeHandler c m = (m1, before, cleared, r) \<longrightarrow>
             filter is_timer (before @ cleared) = []
             \<and> r = (case handleMessage c (fst (executeHandler_setup c m)) of
                      Resolves d \<Rightarrow> Returned ()
                    | Rejects d err \<Rightarrow> Thrown (handler_failure c err)
                    | Hangs \<Rightarrow> Pending)))"
proof (intro conjI allI impI)
  fix t
  assume h: "handleMessageTimeout c = Some t \<and> t \<noteq> 0 \<and>
             exceeds (handleMessage c (fst (executeHandler_setup c m))) t"
  define err where "err = new_TimeoutError
                    \<lparr>message := ''Message handler timed out after '' @ show_nat t @ ''ms: '' @
                                  message new_TimeoutError\<rparr>"
  obtain m1 before cleared where eh: "executeHandler c m = (m1, before, cleared, Thrown err)"
    using executeHandler_timed_out [of c t m] h unfolding err_def by blast
  have t: "processMessage_try c m = (m1, before, cleared, Thrown err)"
    by (rule try_handler_thrown [OF eh])
  have g1: "\<And>a. a \<in> set before \<Longrightarrow> is_guard_action a"
   and g2: "\<And>a. a \<in> set cleared \<Longrightarrow> is_guard_action a"
    using executeHandler_guard [OF eh] by auto
  have fe: "failure_event err m = TimeoutErrorEvent err m"
    by (simp add: failure_event_def err_def new_TimeoutError_def SQSError_name_def
                  instanceof_TimeoutError_def)
  have nm: "name err \<noteq> SQSError_name"
    by (simp add: err_def new_TimeoutError_def SQSError_name_def)
  have pm: "processMessage c m =
           \<lparr>pm_message = m1, pm_before = Emit (MessageReceived m) # before,
            pm_after = cleared @ fst (processMessage_catch c m m1 err),
            pm_result = snd (processMessage_catch c m m1 err)\<rparr>"
    by (rule processMessage_failed [OF t])
  show "filter is_timeout_error (pm_before (processMessage c m) @ pm_after (processMessage c m)) =
        [Emit (TimeoutErrorEvent
                 (new_TimeoutError
                    \<lparr>message := ''Message handler timed out after '' @ show_nat t @ ''ms: '' @
                                  message new_TimeoutError\<rparr>) m)]"
    unfolding err_def [symmetric]
    by (simp add: pm catch_exact [OF try_handle [OF t]] nm fe guard_filters [OF g1]
                  guard_filters [OF g2] split: settled.splits)
  show "filter is_delete_call
          (pm_before (processMessage c m) @ pm_after (processMessage c m)) = []"
    by (simp add: pm catch_exact [OF try_handle [OF t]] nm fe guard_filters [OF g1]
                  guard_filters [OF g2] split: settled.splits)
  show "pm_result (processMessage c m) =
          (if terminateVisibilityTimeout c \<and> \<not> error_listener c then
             (case changeMessageVisibility (sqs c) (queueUrl c) (ReceiptHandle m) (Some 0) of
                Resolved u \<Rightarrow> Returned ()
              | Rejected err2 \<Rightarrow> Thrown err2)
           else Returned ())"
    by (simp add: pm catch_exact [OF try_handle [OF t]] nm split: settled.splits)
next
  fix m1 before cleared r
  assume "\<not> truthy_nat (handleMessageTimeout c)"
     and "executeHandler c m = (m1, before, cleared, r)"
  then show "filter is_timer (before @ cleared) = []"
    and "r = (case handleMessage c (fst (executeHandler_setup c m)) of
                      Resolves d \<Rightarrow> Returned ()
                    | Rejects d err \<Rightarrow> Thrown (handler_failure c err)
                    | Hangs \<Rightarrow> Pending)"
    using executeHandler_unguarded by blast+
qed

theorem handler_timeout_reported_witness:
  "filter is_timeout_error
     (pm_before (processMessage example_slow_consumer (example_message ''A'')) @
      pm_after (processMessage example_slow_consumer (example_message ''A''))) =
     [Emit (TimeoutErrorEvent
              (new_TimeoutError
                 \<lparr>message := ''Message handler timed out after 100ms: Operation timed out.''\<rparr>)
              (example_message ''A''))]
   \<and> filter is_delete_call
     (pm_before (processMessage example_slow_consumer (example_message ''A'')) @
      pm_after (processMessage example_slow_consumer (example_message ''A''))) = []
   \<and> filter is_timer ([] @ []) = []
   \<and> Returned () =
       (case handleMessage (example_consumer\<lparr>handleMessage := (\<lambda>m. Resolves 150)\<rparr>)
               (fst (executeHandler_setup
                       (example_consumer\<lparr>handleMessage := (\<lambda>m. Resolves 150)\<rparr>)
                       (example_message ''A''))) of
          Resolves d \<Rightarrow> Returned ()
        | Rejects d err \<Rightarrow>
            Thrown (handler_failure
                      (example_consumer\<lparr>handleMessage := (\<lambda>m. Resolves 150)\<rparr>) err)
        | Hangs \<Rightarrow> Pending)"
proof -
  have b: "handleMessageTimeout example_slow_consumer = Some 100 \<and> (100::nat) \<noteq> 0 \<and>
           exceeds (handleMessage example_slow_consumer
                      (fst (executeHandler_setup example_slow_consumer (example_message ''A''))))
                   100"
    by (simp add: example_defs exceeds_def)
  have s: "show_nat 100 = ''100''"
    by (simp add: show_nat.simps)
  have d: "message new_TimeoutError = ''Operation timed out.''"
    by (simp add: new_TimeoutError_def)
  have u: "\<not> truthy_nat (handleMessageTimeout (example_consumer\<lparr>handleMessage := (\<lambda>m. Resolves 150)\<rparr>))"
    by (simp add: example_defs truthy_nat_def)
  have e: "executeHandler (example_consumer\<lparr>handleMessage := (\<lambda>m. Resolves 150)\<rparr>)
        (example_message ''A'') =
        ((example_message ''A'')
           \<lparr>finishedProcessing := Some False, msg_visibilityTimeout := Some 30\<rparr>,
         [], [], Returned ())"
    by (simp add: example_defs model_defs)
  have first: "filter is_timeout_error
     (pm_before (processMessage example_slow_consumer (example_message ''A'')) @
      pm_after (processMessage example_slow_consumer (example_message ''A''))) =
     [Emit (TimeoutErrorEvent
              (new_TimeoutError
                 \<lparr>message := ''Message handler timed out after 100ms: Operation timed out.''\<rparr>)
              (example_message ''A''))]
   \<and> filter is_delete_call
     (pm_before (processMessage example_slow_consumer (example_message ''A'')) @
      pm_after (processMessage example_slow_consumer (example_message ''A''))) = []"
    using handler_timeout_reported
            [of example_slow_consumer "example_message ''A''", THEN conjunct1, rule_format, OF b]
    by (simp add: s d)
  show ?thesis
    using first
          handler_timeout_reported
            [of "example_consumer\<lparr>handleMessage := (\<lambda>m. Resolves 150)\<rparr>"
                "example_message ''A''", THEN conjunct2, rule_format, OF u e]
    by blast
qed

section \<open>Facts about the batch\<close>

lemma interleavings_mset:
  "u \<in> interleavings xss \<Longrightarrow> mset u = (\<Sum>xs\<leftarrow>xss. mset xs)"
  by (induction xss arbitrary: u) (auto simp: mset_shuffles)

lemma interleavings_set:
  "u \<in> interleavings xss \<Longrightarrow> set u = (\<Union>xs \<in> set xss. set xs)"
  by (induction xss arbitrary: u) (auto dest!: set_shuffles)

lemma concat_in_interleavings: "concat xss \<in> interleavings xss"
proof (induction xss)
  case Nil
  show ?case by simp
next
  case (Cons xs xss)
  have "xs @ concat xss \<in> shuffles xs (concat xss)"
    by (induction xs) (simp_all add: Cons_in_shuffles_leftI)
  with Cons show ?case by auto
qed

lemma pm_before_shape:
  "\<exists>before. pm_before (processMessage c m) = Emit (MessageReceived m) # before
             \<and> (\<forall>a \<in> set before. is_guard_action a)"
proof -
  obtain m1 before after r where t: "processMessage_try c m = (m1, before, after, r)"
    by (cases "processMessage_try c m") auto
  have "\<forall>a \<in> set before. is_guard_action a"
    using try_before_guard [OF t] by blast
  moreover have "pm_before (processMessage c m) = Emit (MessageReceived m) # before"
    using t by (auto simp: processMessage_def Let_def split: prod.splits outcome.splits)
  ultimately show ?thesis by blast
qed

lemma pm_after_actions:
  assumes "a \<in> set (pm_after (processMessage c m))"
  shows "\<not> is_message_received a \<and> a \<noteq> Emit ResponseProcessed \<and> a \<noteq> Invoke_poll \<and>
         \<not> is_unhandled a"
proof -
  obtain m1 before cleared h where eh: "executeHandler c m = (m1, before, cleared, h)"
    by (cases "executeHandler c m") auto
  have g: "\<And>x. x \<in> set cleared \<Longrightarrow>
             \<not> is_message_received x \<and> x \<noteq> Emit ResponseProcessed \<and> x \<noteq> Invoke_poll \<and>
             \<not> is_unhandled x"
    using executeHandler_cleared [OF eh] by fastforce
  show ?thesis
    using assms eh g
    by (auto simp: processMessage_def processMessage_try_def processMessage_catch_def emit_def
                   consumer_deleteMessage_def terminateVisabilityTimeout_def failure_event_def
                   Let_def
             split: prod.splits outcome.splits settled.splits if_splits)
qed

lemma received_of_befores:
  "filter is_message_received (concat (map (\<lambda>m. pm_before (processMessage c m)) ms)) =
     map (\<lambda>m. Emit (MessageReceived m)) ms"
proof (induction ms)
  case Nil
  show ?case by simp
next
  case (Cons m ms)
  obtain before where b: "pm_before (processMessage c m) = Emit (MessageReceived m) # before"
      and g: "\<forall>a \<in> set before. is_guard_action a"
    using pm_before_shape by blast
  have "filter is_message_received before = []"
    using g guard_not_event by (simp add: filter_empty_conv)
  with Cons b show ?case by simp
qed

lemma befores_quiet:
  assumes "a \<in> set (concat (map (\<lambda>m. pm_before (processMessage c m)) ms))"
  shows "a \<noteq> Emit ResponseProcessed \<and> a \<noteq> Invoke_poll"
proof -
  obtain m where "a \<in> set (pm_before (processMessage c m))"
    using assms by auto
  moreover obtain before where "pm_before (processMessage c m) = Emit (MessageReceived m) # before"
      and "\<forall>a \<in> set before. is_guard_action a"
    using pm_before_shape by blast
  ultimately show ?thesis
    using guard_not_event by auto
qed

lemma befores_heard:
  assumes "a \<in> set (concat (map (\<lambda>m. pm_before (processMessage c m)) ms))"
  shows "\<not> is_unhandled a"
proof -
  obtain m where "a \<in> set (pm_before (processMessage c m))"
    using assms by auto
  moreover obtain before where "pm_before (processMessage c m) = Emit (MessageReceived m) # before"
      and "\<forall>a \<in> set before. is_guard_action a"
    using pm_before_shape by blast
  moreover have "\<And>x. is_guard_action x \<Longrightarrow> \<not> is_unhandled x"
    by (erule is_guard_action.elims) simp_all
  ultimately show ?thesis by auto
qed

lemma keep_first_unhandled_subset: "set (keep_first_unhandled xs) \<subseteq> set xs"
  by (induction xs) auto

lemma keep_first_unhandled_none:
  "(\<And>a. a \<in> set xs \<Longrightarrow> \<not> is_unhandled a) \<Longrightarrow> keep_first_unhandled xs = xs"
  by (induction xs) auto

lemma keep_first_unhandled_received:
  "filter is_message_received (keep_first_unhandled xs) = filter is_message_received xs"
proof (induction xs)
  case Nil
  show ?case by simp
next
  case (Cons a xs)
  have "filter is_message_received (filter (\<lambda>b. \<not> is_unhandled b) xs) =
        filter is_message_received xs"
    by (induction xs) (auto elim: is_message_received.elims)
  with Cons show ?case by simp
qed

lemma unhandled_quiet:
  "is_unhandled a \<Longrightarrow>
     \<not> is_message_received a \<and> a \<noteq> Emit ResponseProcessed \<and> a \<noteq> Invoke_poll"
  by (cases a) simp_all

lemma rejection_actions: "a \<in> set (rejection p) \<Longrightarrow> is_unhandled a"
  by (auto simp: rejection_def split: outcome.splits)

lemma rejection_returned: "pm_result p = Returned u \<Longrightarrow> rejection p = []"
  by (simp add: rejection_def)

text \<open>What a call of \<open>handleSqsResponse\<close> on a non-empty batch produces.\<close>

lemma response_shape:
  assumes "t \<in> handleSqsResponse c (Some r)" and "hasMessages r" and "Messages r = Some ms"
  obtains later where
    "later \<in> interleavings (map (\<lambda>m. pm_after (processMessage c m) @
                                       rejection (processMessage c m)) ms)"
    "t = concat (map (\<lambda>m. pm_before (processMessage c m)) ms) @ keep_first_unhandled later @
           (case Promise_all (map (\<lambda>m. pm_result (processMessage c m)) ms) of
              Returned u \<Rightarrow> [Emit ResponseProcessed, Invoke_poll]
            | other \<Rightarrow> [])"
  using assms by (auto simp: handleSqsResponse_def Let_def comp_def)

lemma later_actions:
  assumes "later \<in> interleavings (map (\<lambda>m. pm_after (processMessage c m) @
                                              rejection (processMessage c m)) ms)"
      and "a \<in> set later"
  shows "\<not> is_message_received a \<and> a \<noteq> Emit ResponseProcessed \<and> a \<noteq> Invoke_poll"
proof -
  obtain m where "a \<in> set (pm_after (processMessage c m)) \<or>
                  a \<in> set (rejection (processMessage c m))"
    using interleavings_set [OF assms(1)] assms(2) by auto
  then show ?thesis
    using pm_after_actions [of a c m] rejection_actions [of a "processMessage c m"]
          unhandled_quiet [of a]
    by blast
qed

lemma response_received:
  assumes "t \<in> handleSqsResponse c (Some r)" and "hasMessages r" and "Messages r = Some ms"
  shows "filter is_message_received t = map (\<lambda>m. Emit (MessageReceived m)) ms"
proof -
  obtain later where l: "later \<in> interleavings (map (\<lambda>m. pm_after (processMessage c m) @
                                       rejection (processMessage c m)) ms)"
    and t: "t = concat (map (\<lambda>m. pm_before (processMessage c m)) ms) @
              keep_first_unhandled later @
           (case Promise_all (map (\<lambda>m. pm_result (processMessage c m)) ms) of
              Returned u \<Rightarrow> [Emit ResponseProcessed, Invoke_poll]
            | other \<Rightarrow> [])"
    using response_shape [OF assms] by blast
  have "filter is_message_received later = []"
    using later_actions [OF l] by (simp add: filter_empty_conv)
  then show ?thesis
    by (simp add: t received_of_befores keep_first_unhandled_received split: outcome.splits)
qed

lemma response_finished:
  assumes "t \<in> handleSqsResponse c (Some r)" and "hasMessages r" and "Messages r = Some ms"
      and all: "\<forall>m \<in> set ms. pm_result (processMessage c m) = Returned ()"
  shows "\<exists>body. t = body @ [Emit ResponseProcessed, Invoke_poll]
           \<and> Emit ResponseProcessed \<notin> set body \<and> Invoke_poll \<notin> set body
           \<and> mset body =
               (\<Sum>m\<leftarrow>ms. mset (pm_before (processMessage c m) @ pm_after (processMessage c m)))"
proof -
  obtain later where l: "later \<in> interleavings (map (\<lambda>m. pm_after (processMessage c m) @
                                       rejection (processMessage c m)) ms)"
    and t: "t = concat (map (\<lambda>m. pm_before (processMessage c m)) ms) @
              keep_first_unhandled later @
           (case Promise_all (map (\<lambda>m. pm_result (processMessage c m)) ms) of
              Returned u \<Rightarrow> [Emit ResponseProcessed, Invoke_poll]
            | other \<Rightarrow> [])"
    using response_shape [OF assms(1-3)] by blast
  have same: "map (\<lambda>m. pm_after (processMessage c m) @ rejection (processMessage c m)) ms =
              map (\<lambda>m. pm_after (processMessage c m)) ms"
    using all by (simp add: rejection_returned)
  have l': "later \<in> interleavings (map (\<lambda>m. pm_after (processMessage c m)) ms)"
    using l same by simp
  have heard: "\<And>a. a \<in> set later \<Longrightarrow> \<not> is_unhandled a"
    using interleavings_set [OF l'] pm_after_actions by auto
  have keep: "keep_first_unhandled later = later"
    by (rule keep_first_unhandled_none) (rule heard)
  have "Promise_all (map (\<lambda>m. pm_result (processMessage c m)) ms) = Returned ()"
    using all by (simp add: Promise_all_returned_iff)
  then have t': "t = (concat (map (\<lambda>m. pm_before (processMessage c m)) ms) @ later) @
                      [Emit ResponseProcessed, Invoke_poll]"
    by (simp add: t keep)
  have quiet: "Emit ResponseProcessed \<notin> set (concat (map (\<lambda>m. pm_before (processMessage c m)) ms) @ later)
             \<and> Invoke_poll \<notin> set (concat (map (\<lambda>m. pm_before (processMessage c m)) ms) @ later)"
    using later_actions [OF l] befores_quiet [of _ c ms] by auto
  have "mset (concat (map (\<lambda>m. pm_before (processMessage c m)) ms) @ later) =
          (\<Sum>xs\<leftarrow>map (\<lambda>m. pm_before (processMessage c m)) ms. mset xs) +
          (\<Sum>xs\<leftarrow>map (\<lambda>m. pm_after (processMessage c m)) ms. mset xs)"
    by (simp add: mset_concat interleavings_mset [OF l'])
  also have "\<dots> = (\<Sum>m\<leftarrow>ms. mset (pm_before (processMessage c m) @
                                      pm_after (processMessage c m)))"
    by (induction ms) (simp_all add: comp_def)
  finally show ?thesis using t' quiet by blast
qed

lemma response_unfinished:
  assumes "t \<in> handleSqsResponse c (Some r)" and "hasMessages r" and "Messages r = Some ms"
      and some: "\<exists>m \<in> set ms. pm_result (processMessage c m) \<noteq> Returned ()"
  shows "Emit ResponseProcessed \<notin> set t \<and> Invoke_poll \<notin> set t"
proof -
  obtain later where l: "later \<in> interleavings (map (\<lambda>m. pm_after (processMessage c m) @
                                       rejection (processMessage c m)) ms)"
    and t: "t = concat (map (\<lambda>m. pm_before (processMessage c m)) ms) @
              keep_first_unhandled later @
           (case Promise_all (map (\<lambda>m. pm_result (processMessage c m)) ms) of
              Returned u \<Rightarrow> [Emit ResponseProcessed, Invoke_poll]
            | other \<Rightarrow> [])"
    using response_shape [OF assms(1-3)] by blast
  have "Promise_all (map (\<lambda>m. pm_result (processMessage c m)) ms) \<noteq> Returned ()"
    using some by (simp add: Promise_all_returned_iff)
  then have t': "t = concat (map (\<lambda>m. pm_before (processMessage c m)) ms) @
                      keep_first_unhandled later"
    by (simp add: t split: outcome.splits)
  show ?thesis
    using later_actions [OF l] befores_quiet [of _ c ms] keep_first_unhandled_subset [of later]
    by (auto simp: t')
qed

text \<open>When the processing of a message settles on a consumer with an error listener.\<close>

lemma try_pending:
  assumes "processMessage_try c m = (m1, before, after, r)"
  shows "r = Pending \<longleftrightarrow>
           \<not> truthy_nat (handleMessageTimeout c) \<and>
           handleMessage c (fst (executeHandler_setup c m)) = Hangs"
  using assms
  by (auto simp: processMessage_try_def executeHandler_def createTimeout_def Promise_race_def
                 await_handler_def consumer_deleteMessage_def Let_def
           split: prod.splits outcome.splits settled.splits handler_run.splits if_splits)

lemma processMessage_settles:
  assumes "error_listener c"
  shows "pm_result (processMessage c m) =
           (if truthy_nat (handleMessageTimeout c) \<or>
               handleMessage c (fst (executeHandler_setup c m)) \<noteq> Hangs
            then Returned () else Pending)"
proof -
  obtain m1 before after r where t: "processMessage_try c m = (m1, before, after, r)"
    by (cases "processMessage_try c m") auto
  show ?thesis
  proof (cases r)
    case (Returned u)
    then show ?thesis
      using try_pending [OF t] by (simp add: processMessage_not_failed [OF t])
  next
    case (Thrown err)
    then show ?thesis
      using try_pending [OF t] t by (simp add: processMessage_failed catch_heard [OF assms])
  next
    case Pending
    then show ?thesis
      using try_pending [OF t] by (simp add: processMessage_not_failed [OF t])
  qed
qed

lemma poll_dispatch:
  assumes "\<not> stopped c" and "receiveMessage (sqs c) (receiveParams c) = Resolved resp"
      and "getQueueAttributes (sqs c) (queueUrl c) = Resolved vt"
  shows "snd (poll c) =
           (\<lambda>rest. [Call (ReceiveMessage (receiveParams c)),
                     Call (GetQueueAttributes (queueUrl c))] @ rest) `
             handleSqsResponse (c\<lparr>visibilityTimeout := Some vt\<rparr>) resp"
  using assms
  by (simp add: poll_def consumer_receiveMessage_def Let_def)

text \<open>
  C4. A poll cycle that receives a batch and then reads the queue's visibility timeout:
  for an empty batch it emits exactly one \<^verbatim>\<open>empty\<close> event, no
  \<^verbatim>\<open>message_received\<close> event, and calls the next cycle. For a non-empty batch it emits
  \<^verbatim>\<open>message_received\<close> exactly once per message; when the processing of every message
  has returned it emits exactly one \<^verbatim>\<open>response_processed\<close>, after everything the
  messages did, and calls the next cycle; while the processing of a message has not
  returned (its handler never settles, or the processing was rejected) neither
  \<^verbatim>\<open>response_processed\<close> nor the next cycle happens. On a consumer with an
  \<^verbatim>\<open>error\<close> listener the processing of a message returns, whatever its outcome, once
  its handler has settled or its budget has run out.
\<close>

theorem batch_cycle_events:
  assumes "\<not> stopped c"
      and "receiveMessage (sqs c) (receiveParams c) = Resolved (Some r)"
      and "getQueueAttributes (sqs c) (queueUrl c) = Resolved vt"
      and "c' = c\<lparr>visibilityTimeout := Some vt\<rparr>"
      and "t \<in> snd (poll c)"
  shows "(\<not> hasMessages r \<longrightarrow>
            t = [Call (ReceiveMessage (receiveParams c)), Call (GetQueueAttributes (queueUrl c)),
                 Emit Empty, Invoke_poll])
       \<and> (\<forall>ms. hasMessages r \<and> Messages r = Some ms \<longrightarrow>
            filter is_message_received t = map (\<lambda>m. Emit (MessageReceived m)) ms
            \<and> ((\<forall>m \<in> set ms. pm_result (processMessage c' m) = Returned ()) \<longrightarrow>
                 (\<exists>body. t = [Call (ReceiveMessage (receiveParams c)),
                               Call (GetQueueAttributes (queueUrl c))] @ body @
                              [Emit ResponseProcessed, Invoke_poll]
                    \<and> Emit ResponseProcessed \<notin> set body \<and> Invoke_poll \<notin> set body
                    \<and> mset body =
                        (\<Sum>m\<leftarrow>ms. mset (pm_before (processMessage c' m) @
                                          pm_after (processMessage c' m)))))
            \<and> ((\<exists>m \<in> set ms. pm_result (processMessage c' m) \<noteq> Returned ()) \<longrightarrow>
                 Emit ResponseProcessed \<notin> set t \<and> Invoke_poll \<notin> set t))
       \<and> (error_listener c \<longrightarrow>
            (\<forall>m. pm_result (processMessage c' m) =
                   (if truthy_nat (handleMessageTimeout c) \<or>
                       handleMessage c (fst (executeHandler_setup c' m)) \<noteq> Hangs
                    then Returned () else Pending)))"
proof -
  obtain rest where rest: "rest \<in> handleSqsResponse c' (Some r)"
      and t: "t = [Call (ReceiveMessage (receiveParams c)),
                   Call (GetQueueAttributes (queueUrl c))] @ rest"
    using assms(5) poll_dispatch [OF assms(1-3)] assms(4) by auto
  have empty: "\<not> hasMessages r \<longrightarrow>
            t = [Call (ReceiveMessage (receiveParams c)), Call (GetQueueAttributes (queueUrl c)),
                 Emit Empty, Invoke_poll]"
    using rest t by (auto simp: handleSqsResponse_def)
  have batch: "\<forall>ms. hasMessages r \<and> Messages r = Some ms \<longrightarrow>
            filter is_message_received t = map (\<lambda>m. Emit (MessageReceived m)) ms
            \<and> ((\<forall>m \<in> set ms. pm_result (processMessage c' m) = Returned ()) \<longrightarrow>
                 (\<exists>body. t = [Call (ReceiveMessage (receiveParams c)),
                               Call (GetQueueAttributes (queueUrl c))] @ body @
                              [Emit ResponseProcessed, Invoke_poll]
                    \<and> Emit ResponseProcessed \<notin> set body \<and> Invoke_poll \<notin> set body
                    \<and> mset body =
                        (\<Sum>m\<leftarrow>ms. mset (pm_before (processMessage c' m) @
                                          pm_after (processMessage c' m)))))
            \<and> ((\<exists>m \<in> set ms. pm_result (processMessage c' m) \<noteq> Returned ()) \<longrightarrow>
                 Emit ResponseProcessed \<notin> set t \<and> Invoke_poll \<notin> set t)"
  proof (intro allI impI conjI)
    fix ms
    assume h: "hasMessages r \<and> Messages r = Some ms"
    then have hm: "hasMessages r" and ms: "Messages r = Some ms" by simp_all
    show "filter is_message_received t = map (\<lambda>m. Emit (MessageReceived m)) ms"
      using response_received [OF rest hm ms] by (simp add: t)
    show "\<exists>body. t = [Call (ReceiveMessage (receiveParams c)),
                               Call (GetQueueAttributes (queueUrl c))] @ body @
                              [Emit ResponseProcessed, Invoke_poll]
                    \<and> Emit ResponseProcessed \<notin> set body \<and> Invoke_poll \<notin> set body
                    \<and> mset body =
                        (\<Sum>m\<leftarrow>ms. mset (pm_before (processMessage c' m) @
                                          pm_after (processMessage c' m)))"
      if "\<forall>m \<in> set ms. pm_result (processMessage c' m) = Returned ()"
      using response_finished [OF rest hm ms that] t by auto
    show "Emit ResponseProcessed \<notin> set t" "Invoke_poll \<notin> set t"
      if "\<exists>m \<in> set ms. pm_result (processMessage c' m) \<noteq> Returned ()"
      using response_unfinished [OF rest hm ms that] by (simp_all add: t)
  qed
  have settle: "error_listener c \<longrightarrow>
            (\<forall>m. pm_result (processMessage c' m) =
                   (if truthy_nat (handleMessageTimeout c) \<or>
                       handleMessage c (fst (executeHandler_setup c' m)) \<noteq> Hangs
                    then Returned () else Pending))"
  proof (intro impI allI)
    fix m
    assume "error_listener c"
    then have "error_listener c'" using assms(4) by simp
    from processMessage_settles [OF this, of m] show
      "pm_result (processMessage c' m) =
                   (if truthy_nat (handleMessageTimeout c) \<or>
                       handleMessage c (fst (executeHandler_setup c' m)) \<noteq> Hangs
                    then Returned () else Pending)"
      using assms(4) by simp
  qed
  show ?thesis
    using empty batch settle by blast
qed

theorem batch_cycle_events_witness:
  "[Call (ReceiveMessage (receiveParams example_mixed_consumer)),
    Call (GetQueueAttributes ''https://queue''),
    Emit (MessageReceived (example_message ''A'')),
    Emit (MessageReceived (example_message ''B'')),
    Emit (ProcessingError
            ((new_Error ''bad input'')
               \<lparr>message := ''Unexpected message handler failure: bad input''\<rparr>)
            (example_message ''B'')),
    Call (DeleteMessage ''https://queue'' ''A''),
    Emit (MessageProcessed (example_message ''A'')),
    Emit ResponseProcessed, Invoke_poll] \<in> snd (poll example_mixed_consumer)
   \<and> filter is_message_received
       [Call (ReceiveMessage (receiveParams example_mixed_consumer)),
        Call (GetQueueAttributes ''https://queue''),
        Emit (MessageReceived (example_message ''A'')),
        Emit (MessageReceived (example_message ''B'')),
        Emit (ProcessingError
                ((new_Error ''bad input'')
                   \<lparr>message := ''Unexpected message handler failure: bad input''\<rparr>)
                (example_message ''B'')),
        Call (DeleteMessage ''https://queue'' ''A''),
        Emit (MessageProcessed (example_message ''A'')),
        Emit ResponseProcessed, Invoke_poll] =
       [Emit (MessageReceived (example_message ''A'')),
        Emit (MessageReceived (example_message ''B''))]
   \<and> (\<exists>body.
         [Call (ReceiveMessage (receiveParams example_mixed_consumer)),
          Call (GetQueueAttributes ''https://queue''),
          Emit (MessageReceived (example_message ''A'')),
          Emit (MessageReceived (example_message ''B'')),
          Emit (ProcessingError
                  ((new_Error ''bad input'')
                     \<lparr>message := ''Unexpected message handler failure: bad input''\<rparr>)
                  (example_message ''B'')),
          Call (DeleteMessage ''https://queue'' ''A''),
          Emit (MessageProcessed (example_message ''A'')),
          Emit ResponseProcessed, Invoke_poll] =
         [Call (ReceiveMessage (receiveParams example_mixed_consumer)),
          Call (GetQueueAttributes ''https://queue'')] @ body @
         [Emit ResponseProcessed, Invoke_poll]
         \<and> Emit ResponseProcessed \<notin> set body)
   \<and> [Call (ReceiveMessage (receiveParams example_hanging_consumer)),
       Call (GetQueueAttributes ''https://queue''),
       Emit (MessageReceived (example_message ''A''))] \<in> snd (poll example_hanging_consumer)
   \<and> Emit ResponseProcessed \<notin>
       set [Call (ReceiveMessage (receiveParams example_hanging_consumer)),
            Call (GetQueueAttributes ''https://queue''),
            Emit (MessageReceived (example_message ''A''))]
   \<and> Invoke_poll \<notin>
       set [Call (ReceiveMessage (receiveParams example_hanging_consumer)),
            Call (GetQueueAttributes ''https://queue''),
            Emit (MessageReceived (example_message ''A''))]
   \<and> [Call (ReceiveMessage (receiveParams (example_polling_consumer \<lparr>Messages = Some []\<rparr>))),
       Call (GetQueueAttributes ''https://queue''), Emit Empty, Invoke_poll]
       \<in> snd (poll (example_polling_consumer \<lparr>Messages = Some []\<rparr>))
   \<and> pm_result (processMessage (example_mixed_consumer\<lparr>visibilityTimeout := Some 30\<rparr>)
                  (example_message ''B'')) = Returned ()"
proof -
  let ?e = "(new_Error ''bad input'')
              \<lparr>message := ''Unexpected message handler failure: bad input''\<rparr>"
  let ?c = "example_mixed_consumer\<lparr>visibilityTimeout := Some 30\<rparr>"
  let ?h = "example_hanging_consumer\<lparr>visibilityTimeout := Some 30\<rparr>"
  let ?p = "example_polling_consumer \<lparr>Messages = Some []\<rparr>"
  let ?t = "[Call (ReceiveMessage (receiveParams example_mixed_consumer)),
    Call (GetQueueAttributes ''https://queue''),
    Emit (MessageReceived (example_message ''A'')),
    Emit (MessageReceived (example_message ''B'')),
    Emit (ProcessingError ?e (example_message ''B'')),
    Call (DeleteMessage ''https://queue'' ''A''),
    Emit (MessageProcessed (example_message ''A'')),
    Emit ResponseProcessed, Invoke_poll]"
  let ?t2 = "[Call (ReceiveMessage (receiveParams example_hanging_consumer)),
       Call (GetQueueAttributes ''https://queue''),
       Emit (MessageReceived (example_message ''A''))]"
  let ?t3 = "[Call (ReceiveMessage (receiveParams ?p)),
       Call (GetQueueAttributes ''https://queue''), Emit Empty, Invoke_poll]"
  have run: "\<not> stopped example_mixed_consumer" "\<not> stopped example_hanging_consumer"
            "\<not> stopped ?p"
    by (simp_all add: example_defs)
  have recv: "receiveMessage (sqs example_mixed_consumer) (receiveParams example_mixed_consumer) =
                Resolved (Some example_batch)"
             "receiveMessage (sqs example_hanging_consumer)
                (receiveParams example_hanging_consumer) = Resolved (Some example_single_batch)"
             "receiveMessage (sqs ?p) (receiveParams ?p) = Resolved (Some \<lparr>Messages = Some []\<rparr>)"
    by (simp_all add: example_mixed_consumer_def example_hanging_consumer_def
                      example_polling_consumer_def example_polling_client_def
                      example_client_def example_consumer_def)
  have attrs: "getQueueAttributes (sqs example_mixed_consumer) (queueUrl example_mixed_consumer) =
                 Resolved 30"
              "getQueueAttributes (sqs example_hanging_consumer)
                 (queueUrl example_hanging_consumer) = Resolved 30"
              "getQueueAttributes (sqs ?p) (queueUrl ?p) = Resolved 30"
    by (simp_all add: example_mixed_consumer_def example_hanging_consumer_def
                      example_polling_consumer_def example_polling_client_def
                      example_client_def example_consumer_def)
  have q: "queueUrl example_mixed_consumer = ''https://queue''"
          "queueUrl example_hanging_consumer = ''https://queue''"
          "queueUrl ?p = ''https://queue''"
    by (simp_all add: example_mixed_consumer_def example_hanging_consumer_def
                      example_polling_consumer_def example_consumer_def)
  have hm: "hasMessages example_batch \<and>
            Messages example_batch = Some [example_message ''A'', example_message ''B'']"
           "hasMessages example_single_batch \<and>
            Messages example_single_batch = Some [example_message ''A'']"
   and ne: "\<not> hasMessages \<lparr>Messages = Some []\<rparr>"
    by (simp_all add: example_batch_def example_single_batch_def hasMessages_def)
  have pA: "processMessage ?c (example_message ''A'') =
     \<lparr>pm_message = (example_message ''A'')
        \<lparr>finishedProcessing := Some False, msg_visibilityTimeout := Some 30\<rparr>,
      pm_before = [Emit (MessageReceived (example_message ''A''))],
      pm_after = [Call (DeleteMessage ''https://queue'' ''A''),
                  Emit (MessageProcessed (example_message ''A''))],
      pm_result = Returned ()\<rparr>"
   and pB: "processMessage ?c (example_message ''B'') =
     \<lparr>pm_message = (example_message ''B'')
        \<lparr>finishedProcessing := Some True, msg_visibilityTimeout := Some 30\<rparr>,
      pm_before = [Emit (MessageReceived (example_message ''B''))],
      pm_after = [Emit (ProcessingError ?e (example_message ''B''))],
      pm_result = Returned ()\<rparr>"
   and pH: "processMessage ?h (example_message ''A'') =
     \<lparr>pm_message = (example_message ''A'')
        \<lparr>finishedProcessing := Some False, msg_visibilityTimeout := Some 30\<rparr>,
      pm_before = [Emit (MessageReceived (example_message ''A''))],
      pm_after = [],
      pm_result = Pending\<rparr>"
    by (simp_all add: example_defs model_defs)
  have "[Emit (ProcessingError ?e (example_message ''B'')),
         Call (DeleteMessage ''https://queue'' ''A''),
         Emit (MessageProcessed (example_message ''A''))]
        \<in> interleavings
            [[Call (DeleteMessage ''https://queue'' ''A''),
              Emit (MessageProcessed (example_message ''A''))],
             [Emit (ProcessingError ?e (example_message ''B''))]]"
    by (simp add: Cons_in_shuffles_iff)
  then have "[Emit (MessageReceived (example_message ''A'')),
              Emit (MessageReceived (example_message ''B'')),
              Emit (ProcessingError ?e (example_message ''B'')),
              Call (DeleteMessage ''https://queue'' ''A''),
              Emit (MessageProcessed (example_message ''A'')),
              Emit ResponseProcessed, Invoke_poll] \<in> handleSqsResponse ?c (Some example_batch)"
    by (simp add: handleSqsResponse_def hm pA pB rejection_def image_iff)
  then have mem: "?t \<in> snd (poll example_mixed_consumer)"
    by (simp add: poll_dispatch [OF run(1) recv(1) attrs(1)] q image_iff)
  have "[Emit (MessageReceived (example_message ''A''))] \<in>
          handleSqsResponse ?h (Some example_single_batch)"
    by (simp add: handleSqsResponse_def hm pH rejection_def)
  then have mem2: "?t2 \<in> snd (poll example_hanging_consumer)"
    by (simp add: poll_dispatch [OF run(2) recv(2) attrs(2)] q image_iff)
  have mem3: "?t3 \<in> snd (poll ?p)"
    by (simp add: poll_dispatch [OF run(3) recv(3) attrs(3)] q image_iff handleSqsResponse_def ne)
  have all: "\<And>m. m \<in> set [example_message ''A'', example_message ''B''] \<Longrightarrow>
                 pm_result (processMessage ?c m) = Returned ()"
    by (auto simp: pA pB)
  have some: "\<exists>m \<in> set [example_message ''A''].
                pm_result (processMessage ?h m) \<noteq> Returned ()"
    by (simp add: pH)
  have l: "error_listener example_mixed_consumer"
    by (simp add: example_defs)
  have b: "truthy_nat (handleMessageTimeout example_mixed_consumer) \<or>
           handleMessage example_mixed_consumer
             (fst (executeHandler_setup ?c (example_message ''B''))) \<noteq> Hangs"
    by (simp add: example_defs)
  have first: "filter is_message_received ?t =
                 [Emit (MessageReceived (example_message ''A'')),
                  Emit (MessageReceived (example_message ''B''))]"
    using batch_cycle_events [OF run(1) recv(1) attrs(1) refl mem, THEN conjunct2,
            THEN conjunct1, rule_format, OF hm(1), THEN conjunct1]
    by simp
  have second: "\<exists>body. ?t = [Call (ReceiveMessage (receiveParams example_mixed_consumer)),
          Call (GetQueueAttributes ''https://queue'')] @ body @
         [Emit ResponseProcessed, Invoke_poll]
         \<and> Emit ResponseProcessed \<notin> set body"
    using batch_cycle_events [OF run(1) recv(1) attrs(1) refl mem, THEN conjunct2,
            THEN conjunct1, rule_format, OF hm(1), THEN conjunct2, THEN conjunct1,
            rule_format, OF all]
    unfolding q by blast
  have third: "Emit ResponseProcessed \<notin> set ?t2 \<and> Invoke_poll \<notin> set ?t2"
    using batch_cycle_events [OF run(2) recv(2) attrs(2) refl mem2, THEN conjunct2,
            THEN conjunct1, rule_format, OF hm(2), THEN conjunct2, THEN conjunct2,
            rule_format, OF some]
    by simp
  have fourth: "?t3 = [Call (ReceiveMessage (receiveParams ?p)),
                       Call (GetQueueAttributes (queueUrl ?p)), Emit Empty, Invoke_poll]"
    using batch_cycle_events [OF run(3) recv(3) attrs(3) refl mem3, THEN conjunct1,
            rule_format, OF ne] .
  have fifth: "pm_result (processMessage ?c (example_message ''B'')) = Returned ()"
    using batch_cycle_events [OF run(1) recv(1) attrs(1) refl mem, THEN conjunct2,
            THEN conjunct2, rule_format, OF l, of "example_message ''B''"] b
    by simp
  show ?thesis
    using mem first second mem2 third mem3 fifth by blast
qed

text \<open>
  Two cycles that receive a non-empty batch and emit no \<^verbatim>\<open>response_processed\<close>: in
  the first the read of the queue's visibility timeout fails, and the batch is dropped
  without a \<^verbatim>\<open>message_received\<close> event; in the second the consumer has no
  \<^verbatim>\<open>error\<close> listener and the delete of the one message fails.
\<close>

theorem cycle_without_batch_events:
  "receiveMessage (sqs example_blind_consumer) (receiveParams example_blind_consumer) =
     Resolved (Some example_batch)
   \<and> snd (poll example_blind_consumer) =
       {[Call (ReceiveMessage (receiveParams example_blind_consumer)),
         Call (GetQueueAttributes ''https://queue''),
         Emit (Error (example_failure 500) None)]}
   \<and> receiveMessage (sqs example_unheard_consumer) (receiveParams example_unheard_consumer) =
       Resolved (Some example_single_batch)
   \<and> snd (poll example_unheard_consumer) =
       {[Call (ReceiveMessage (receiveParams example_unheard_consumer)),
         Call (GetQueueAttributes ''https://queue''),
         Emit (MessageReceived (example_message ''A'')),
         Call (DeleteMessage ''https://queue'' ''A''),
         Emit (Error (toSQSError (example_failure 503)
                        ''SQS delete message failed: service failure'')
                 (Some (example_message ''A''))),
         Unhandled (toSQSError (example_failure 503)
                      ''SQS delete message failed: service failure'')]}"
proof -
  let ?u = "example_unheard_consumer\<lparr>visibilityTimeout := Some 30\<rparr>"
  have run: "\<not> stopped example_blind_consumer" "\<not> stopped example_unheard_consumer"
    by (simp_all add: example_defs)
  have recv: "receiveMessage (sqs example_blind_consumer) (receiveParams example_blind_consumer) =
                Resolved (Some example_batch)"
             "receiveMessage (sqs example_unheard_consumer)
                (receiveParams example_unheard_consumer) = Resolved (Some example_single_batch)"
    by (simp_all add: example_blind_consumer_def example_unheard_consumer_def
                      example_polling_client_def example_client_def example_consumer_def)
  have attrs: "getQueueAttributes (sqs example_blind_consumer) (queueUrl example_blind_consumer) =
                 Rejected (example_failure 500)"
              "getQueueAttributes (sqs example_unheard_consumer)
                 (queueUrl example_unheard_consumer) = Resolved 30"
    by (simp_all add: example_blind_consumer_def example_unheard_consumer_def
                      example_polling_client_def example_client_def example_consumer_def)
  have q: "queueUrl example_blind_consumer = ''https://queue''"
          "queueUrl example_unheard_consumer = ''https://queue''"
    by (simp_all add: example_blind_consumer_def example_unheard_consumer_def
                      example_consumer_def)
  have a: "\<not> isAuthenticationError (example_failure 500)"
    by (simp add: example_failure_def new_Error_def isAuthenticationError_def)
  have l: "error_listener example_blind_consumer"
    by (simp add: example_defs)
  have blind: "snd (poll example_blind_consumer) =
       {[Call (ReceiveMessage (receiveParams example_blind_consumer)),
         Call (GetQueueAttributes ''https://queue''),
         Emit (Error (example_failure 500) None)]}"
    using run(1) recv(1) attrs(1)
    by (simp add: poll_def consumer_receiveMessage_def poll_catch_def emit_def q a l)
  have p: "processMessage ?u (example_message ''A'') =
     \<lparr>pm_message = (example_message ''A'')
        \<lparr>finishedProcessing := Some False, msg_visibilityTimeout := Some 30\<rparr>,
      pm_before = [Emit (MessageReceived (example_message ''A''))],
      pm_after = [Call (DeleteMessage ''https://queue'' ''A''),
                  Emit (Error (toSQSError (example_failure 503)
                                 ''SQS delete message failed: service failure'')
                          (Some (example_message ''A'')))],
      pm_result = Thrown (toSQSError (example_failure 503)
                            ''SQS delete message failed: service failure'')\<rparr>"
    by (simp add: example_defs model_defs)
  have unheard: "snd (poll example_unheard_consumer) =
       {[Call (ReceiveMessage (receiveParams example_unheard_consumer)),
         Call (GetQueueAttributes ''https://queue''),
         Emit (MessageReceived (example_message ''A'')),
         Call (DeleteMessage ''https://queue'' ''A''),
         Emit (Error (toSQSError (example_failure 503)
                        ''SQS delete message failed: service failure'')
                 (Some (example_message ''A''))),
         Unhandled (toSQSError (example_failure 503)
                      ''SQS delete message failed: service failure'')]}"
    by (simp add: poll_dispatch [OF run(2) recv(2) attrs(2)] q handleSqsResponse_def
                  hasMessages_def example_single_batch_def p rejection_def)
  show ?thesis
    using recv blind unheard by simp
qed

section \<open>The poll cycle after a failed receive\<close>

lemma toSQSError_authentication:
  "isAuthenticationError (toSQSError e text) = isAuthenticationError e"
  by (simp add: isAuthenticationError_def toSQSError_def)

lemma poll_receive_failed:
  assumes "\<not> stopped c" and "receiveMessage (sqs c) (receiveParams c) = Rejected e"
  shows "snd (poll c) =
           {[Call (ReceiveMessage (receiveParams c)),
             Emit (Error (toSQSError e (''SQS receive message failed: '' @ message e)) None)] @
            (if error_listener c then
               (if isAuthenticationError e
                  then [SetTimeout PollTimer (Some (int (authenticationErrorTimeout c)))]
                else [])
             else [Unhandled (toSQSError e (''SQS receive message failed: '' @ message e))])}"
  using assms
  by (simp add: poll_def consumer_receiveMessage_def poll_catch_def emit_def
                toSQSError_authentication)

lemma poll_attributes_failed:
  assumes "\<not> stopped c" and "receiveMessage (sqs c) (receiveParams c) = Resolved resp"
      and "getQueueAttributes (sqs c) (queueUrl c) = Rejected e"
  shows "snd (poll c) =
           {[Call (ReceiveMessage (receiveParams c)), Call (GetQueueAttributes (queueUrl c)),
             Emit (Error e None)] @
            (if error_listener c then
               (if isAuthenticationError e
                  then [SetTimeout PollTimer (Some (int (authenticationErrorTimeout c)))]
                else [])
             else [Unhandled e])}"
  using assms
  by (simp add: poll_def consumer_receiveMessage_def poll_catch_def emit_def)

text \<open>
  C1. A poll cycle whose receive call fails emits an \<^verbatim>\<open>error\<close> event. When the
  failure is an authentication failure the next cycle is put on a timer with the
  authentication backoff (here 10000 ms, for status code 403). For any other failure the
  next cycle is to be called at once; the cycle evaluated here, whose receive call fails
  with status code 500 while the consumer is running, ends after the \<^verbatim>\<open>error\<close>
  event: no next cycle is called and none is put on a timer.
\<close>

theorem poll_halts_after_receive_failure:
  "stopped (example_unreachable_consumer 500) = False
   \<and> snd (poll (example_unreachable_consumer 500)) =
       {[Call (ReceiveMessage (receiveParams (example_unreachable_consumer 500))),
         Emit (Error (toSQSError (example_failure 500)
                        ''SQS receive message failed: service failure'') None)]}
   \<and> snd (poll (example_unreachable_consumer 403)) =
       {[Call (ReceiveMessage (receiveParams (example_unreachable_consumer 403))),
         Emit (Error (toSQSError (example_failure 403)
                        ''SQS receive message failed: service failure'') None),
         SetTimeout PollTimer (Some 10000)]}"
proof -
  have s: "\<And>k. \<not> stopped (example_unreachable_consumer k)"
    by (simp add: example_unreachable_consumer_def example_consumer_def)
  have r: "\<And>k. receiveMessage (sqs (example_unreachable_consumer k))
             (receiveParams (example_unreachable_consumer k)) = Rejected (example_failure k)"
    by (simp add: example_unreachable_consumer_def example_consumer_def)
  have m: "\<And>k. message (example_failure k) = ''service failure''"
    by (simp add: example_failure_def new_Error_def)
  have a: "\<not> isAuthenticationError (example_failure 500)"
          "isAuthenticationError (example_failure 403)"
    by (simp_all add: example_failure_def new_Error_def isAuthenticationError_def)
  have t: "authenticationErrorTimeout (example_unreachable_consumer 403) = 10000"
    by (simp add: example_unreachable_consumer_def example_consumer_def)
  have l: "\<And>k. error_listener (example_unreachable_consumer k)"
    by (simp add: example_unreachable_consumer_def example_consumer_def)
  show ?thesis
    using s [of 500] poll_receive_failed [OF s r, of 500] poll_receive_failed [OF s r, of 403]
    by (simp add: m a t l)
qed

section \<open>The flag that ends visibility extension\<close>

lemma executeHandler_flag_thrown:
  "executeHandler c m = (m1, before, cleared, Thrown err) \<Longrightarrow> finishedProcessing m1 = Some True"
  by (auto simp: executeHandler_def createTimeout_def Let_def
           split: prod.splits outcome.splits if_splits)

lemma executeHandler_flag_returned:
  "executeHandler c m = (m1, before, cleared, Returned u) \<Longrightarrow> finishedProcessing m1 = Some False"
  using setup_flag [of c m]
  by (auto simp: executeHandler_def createTimeout_def Let_def
           split: prod.splits outcome.splits if_splits)

lemma extendTimeout_finished:
  "finishedProcessing m = Some True \<Longrightarrow> extendTimeout c m = (m, [], [])"
  by (simp add: extendTimeout_def)

lemma extendTimeout_round:
  assumes "finishedProcessing m \<noteq> Some True" and "msg_visibilityTimeout m = Some v"
  shows "extendTimeout c m =
           (m\<lparr>msg_visibilityTimeout := Some (v * 2)\<rparr>,
            [Call (ChangeMessageVisibility (queueUrl c) (ReceiptHandle m) (Some (v * 2)))],
            (case changeMessageVisibility (sqs c) (queueUrl c) (ReceiptHandle m) (Some (v * 2)) of
               Resolved u \<Rightarrow> [SetTimeout (ExtendTimer (ReceiptHandle m)) (Some (v * 2 * 450))]
             | Rejected err \<Rightarrow> [Unhandled err]))"
  using assms
  by (simp add: extendTimeout_def extendTimeout_call_def extendTimeout_then_def Let_def
           split: settled.splits)

text \<open>
  C2. \<^verbatim>\<open>finishedProcessing\<close> is to be true once the handler has returned or failed,
  and no extension round is to follow. After a failure the flag is true and a round does
  nothing (\<open>executeHandler_flag_thrown\<close>, \<open>extendTimeout_finished\<close>). The message
  evaluated here is processed with extension enabled and its handler resolves: it is
  deleted and \<^verbatim>\<open>message_processed\<close> is emitted, the flag is still false, and the next
  extension round doubles the timeout again (30, 60, now 120), calls
  \<^verbatim>\<open>changeMessageVisibility\<close> and sets the timer of a further round.
\<close>

theorem extension_continues_after_success:
  "pm_result (processMessage example_extending_consumer (example_message ''A'')) = Returned ()
   \<and> pm_after (processMessage example_extending_consumer (example_message ''A'')) =
       [Call (DeleteMessage ''https://queue'' ''A''), Emit (MessageProcessed (example_message ''A''))]
   \<and> finishedProcessing
       (pm_message (processMessage example_extending_consumer (example_message ''A''))) =
       Some False
   \<and> extendTimeout example_extending_consumer
       (pm_message (processMessage example_extending_consumer (example_message ''A''))) =
       ((example_message ''A'')
          \<lparr>finishedProcessing := Some False, msg_visibilityTimeout := Some 120\<rparr>,
        [Call (ChangeMessageVisibility ''https://queue'' ''A'' (Some 120))],
        [SetTimeout (ExtendTimer ''A'') (Some 54000)])"
  by (simp add: example_extending_consumer_def example_defs model_defs)

text \<open>
  C9. An extension round doubles the tracked visibility timeout, pushes the doubled value
  with \<^verbatim>\<open>changeMessageVisibility\<close> and, when the call succeeds, sets the timer of
  the next round to 450 ms times the new value (\<open>extendTimeout_round\<close>). A failed call
  is to be observed and the next round scheduled all the same; in the round evaluated
  here the call is rejected: the rejection reaches no handler, no timer is set, so no
  further round follows, and the processing of the message still returns normally.
\<close>

theorem failed_extension_ends_silently:
  "extendTimeout example_unextendable_consumer
     ((example_message ''A'')\<lparr>finishedProcessing := Some False, msg_visibilityTimeout := Some 30\<rparr>) =
     ((example_message ''A'')\<lparr>finishedProcessing := Some False, msg_visibilityTimeout := Some 60\<rparr>,
      [Call (ChangeMessageVisibility ''https://queue'' ''A'' (Some 60))],
      [Unhandled (example_failure 500)])
   \<and> pm_result (processMessage example_unextendable_consumer (example_message ''A'')) =
       Returned ()"
  by (simp add: example_unextendable_consumer_def example_defs model_defs)

end
